theory Spec2Isabelle
  imports Complex_Main "HOL-Library.Multiset" "HOL-Library.Char_ord" "HOL-Library.List_Lexorder"
begin

section \<open>Values of the tables\<close>

text \<open>
  The processors work on pandas tables whose cells hold Python objects.  A cell of an input
  table is modelled by \<open>cell\<close>: \<open>Null\<close> stands for \<open>None\<close>, \<open>NaN\<close> and \<open>NaT\<close>
  (everything \<open>pd.isna\<close> accepts), \<open>Num\<close> for an int or float, \<open>Str\<close> for a \<open>str\<close> and
  \<open>Stamp\<close> for a \<open>pd.Timestamp\<close> or \<open>datetime\<close>, given by its day number (days since
  1970-01-01; the time of day is dropped by every \<open>strftime('%Y-%m-%d')\<close> of the source).
  Floats are modelled by reals: the infinities are not represented, and \<open>NaN\<close> is \<open>Null\<close>.
  Strings are HOL strings (code points 0..255).
\<close>

datatype cell = Null | Num real | Str string | Stamp int

text \<open>
  The results of \<open>process\<close> that are not a table: the empty node list, which \<open>process\<close>
  returns as an error (\<open>NoNodes\<close>), and the exceptions of the stages after it, which its
  \<open>except Exception\<close> branch turns into an error: the \<open>OverflowError\<close> of \<open>int\<close> on an
  infinity, and an exception raised inside pandas (\<open>PandasError\<close>).
\<close>

datatype error = NoNodes | OverflowError | PandasError

text \<open>
  Functions of Python and pandas that the repository calls but does not define are taken as a
  parameter \<open>lib\<close> of the model, so that every theorem holds for whatever they compute:
  \<^item> \<open>float_of s\<close> is \<open>float(s)\<close> on a \<open>str\<close> when that is a finite number; \<open>None\<close> when it
    raises \<open>ValueError\<close> or yields \<open>NaN\<close> (the source treats both alike: \<open>notna\<close> fails,
    \<open>int(nan)\<close> raises \<open>ValueError\<close>);
  \<^item> \<open>float_is_inf s\<close> tells that \<open>float(s)\<close> is an infinity (\<open>'inf'\<close>, \<open>'-Infinity'\<close>,
    \<open>'1e999'\<close>), where \<open>int(float(s))\<close> raises \<open>OverflowError\<close>;
  \<^item> \<open>at_out_of_int64 n\<close> is what \<open>df.at[idx, col] = n\<close> does on an \<open>int64\<close> column, inside
    a \<open>try\<close> that catches \<open>ValueError\<close> and \<open>TypeError\<close>, for a Python int \<open>n\<close> outside
    \<open>int64\<close>; the versions of pandas differ.  \<open>Inr None\<close>: it raises one of the two
    exceptions, and the cell stays as it was.  \<open>Inl e\<close>: it raises another exception, or the
    later \<open>astype(int)\<close> of the column does, and the run ends.  \<open>Inr (Some m)\<close>: it stores
    \<open>n\<close> by changing the type of the column, and \<open>m\<close> is the integer that
    \<open>pd.to_numeric(...).astype(int)\<close> of \<open>finalize_cadence\<close> reads back;
  \<^item> \<open>str_of_num x\<close> is \<open>str(x)\<close> on a number, \<open>str_of_int n\<close> is \<open>str(n)\<close> on an int and
    \<open>str_of_stamp d\<close> is \<open>str(d)\<close> on a timestamp;
  \<^item> \<open>to_datetime s\<close> is \<open>pd.to_datetime(s, errors='coerce')\<close> on a \<open>str\<close>, \<open>None\<close> for \<open>NaT\<close>;
  \<^item> \<open>num_to_datetime x\<close> is \<open>pd.to_datetime(x, errors='coerce')\<close> on a number;
  \<^item> \<open>strftime d\<close> is \<open>d.strftime('%Y-%m-%d')\<close>.
\<close>

record pylib =
  float_of :: "string \<Rightarrow> real option"
  float_is_inf :: "string \<Rightarrow> bool"
  at_out_of_int64 :: "int \<Rightarrow> error + int option"
  str_of_num :: "real \<Rightarrow> string"
  str_of_int :: "int \<Rightarrow> string"
  str_of_stamp :: "int \<Rightarrow> string"
  to_datetime :: "string \<Rightarrow> int option"
  num_to_datetime :: "real \<Rightarrow> int option"
  strftime :: "int \<Rightarrow> string"

subsection \<open>Python string helpers\<close>

definition is_space :: "char \<Rightarrow> bool" where
  "is_space c = (c \<in> set [CHR 0x09, CHR 0x0A, CHR 0x0B, CHR 0x0C, CHR 0x0D, CHR 0x1C, CHR 0x1D,
     CHR 0x1E, CHR 0x1F, CHR 0x20, CHR 0x85, CHR 0xA0])"

definition strip :: "string \<Rightarrow> string" where
  "strip s = rev (dropWhile is_space (rev (dropWhile is_space s)))"

definition lower_char :: "char \<Rightarrow> char" where
  "lower_char c =
     (let n = (of_char c :: nat)
      in if (65 \<le> n \<and> n \<le> 90) \<or> (192 \<le> n \<and> n \<le> 222 \<and> n \<noteq> 215) then char_of (n + 32) else c)"

definition lower :: "string \<Rightarrow> string" where
  "lower s = map lower_char s"

text \<open>\<open>s.split(sep)\<close> for a one-character separator: never empty, \<open>''.split(',') = ['']\<close>.\<close>

fun split_on :: "char \<Rightarrow> string \<Rightarrow> string list" where
  "split_on sep [] = [[]]"
| "split_on sep (c # cs) =
     (if c = sep then [] # split_on sep cs
      else (case split_on sep cs of [] \<Rightarrow> [[c]] | w # ws \<Rightarrow> (c # w) # ws))"

text \<open>\<open>sub in s\<close> on strings; \<open>str.contains\<close> with a regex of plain alternatives is a
  disjunction of such tests.\<close>

fun contains :: "string \<Rightarrow> string \<Rightarrow> bool" where
  "contains [] sub = (sub = [])"
| "contains (c # cs) sub = (take (length sub) (c # cs) = sub \<or> contains cs sub)"

section \<open>BaseProcessor: the common helpers\<close>

definition NOT_FOUND :: string where
  "NOT_FOUND = ''not Found!''"

definition is_not_found :: "cell \<Rightarrow> bool" where
  "is_not_found v =
     (case v of
        Null \<Rightarrow> True
      | Str s \<Rightarrow> lower (strip s) \<in> set [''not found!'', ''not found'', ''nan'', ''nat'', ''none'', '''']
      | Num x \<Rightarrow> False
      | Stamp d \<Rightarrow> False)"

text \<open>\<open>convert\<close>, the function \<open>safe_to_numeric\<close> applies to every cell; \<open>None\<close> is \<open>np.nan\<close>.
  \<open>float\<close> of a timestamp raises \<open>TypeError\<close>.\<close>

definition convert :: "pylib \<Rightarrow> cell \<Rightarrow> real option" where
  "convert lib x =
     (if is_not_found x then None
      else case x of
        Num r \<Rightarrow> Some r
      | Str s \<Rightarrow> float_of lib s
      | Stamp d \<Rightarrow> None
      | Null \<Rightarrow> None)"

definition safe_to_numeric :: "pylib \<Rightarrow> cell list \<Rightarrow> real option list" where
  "safe_to_numeric lib series = map (convert lib) series"

definition date_to_string :: "pylib \<Rightarrow> cell \<Rightarrow> string" where
  "date_to_string lib date_value =
     (if is_not_found date_value then NOT_FOUND
      else case date_value of
        Str s \<Rightarrow>
          (if lower (strip s) \<in> set [''not found!'', ''not found'', ''nan'', ''nat'', '''']
           then NOT_FOUND else s)
      | Stamp d \<Rightarrow> strftime lib d
      | Num x \<Rightarrow> (case num_to_datetime lib x of Some d \<Rightarrow> strftime lib d | None \<Rightarrow> NOT_FOUND)
      | Null \<Rightarrow> NOT_FOUND)"

text \<open>
  A \<open>pd.Timestamp\<close> counts nanoseconds in 64 bits: midnight of day \<open>d\<close> is representable
  exactly when \<open>\<bar>d\<bar> \<le> 106751\<close> (1677-09-22 to 2262-04-11).  \<open>parsed + pd.Timedelta(days=days)\<close>
  raises outside that range, and \<open>add_days_to_date\<close> catches every exception.
\<close>

definition TS_MAX_DAY :: int where
  "TS_MAX_DAY = 106751"

definition timestamp_plus :: "int \<Rightarrow> int \<Rightarrow> int option" where
  "timestamp_plus d days = (if - TS_MAX_DAY \<le> d + days \<and> d + days \<le> TS_MAX_DAY then Some (d + days) else None)"

definition add_days_to_date :: "pylib \<Rightarrow> cell \<Rightarrow> int \<Rightarrow> string" where
  "add_days_to_date lib date_value days =
     (if is_not_found date_value then NOT_FOUND
      else
        let parsed = (case date_value of
                        Str s \<Rightarrow> to_datetime lib s
                      | Stamp d \<Rightarrow> Some d
                      | Num x \<Rightarrow> num_to_datetime lib x
                      | Null \<Rightarrow> None)
        in case parsed of
             None \<Rightarrow> NOT_FOUND
           | Some d \<Rightarrow> (case timestamp_plus d days of
                          None \<Rightarrow> NOT_FOUND
                        | Some new_date \<Rightarrow> strftime lib new_date))"


section \<open>The Cadence table\<close>

text \<open>
  A row of the \<open>Cadence\<close> data frame, with the columns the rules read and write.  The columns
  \<open>program\<close>, \<open>Parent Classes\<close>, \<open>Child Classes\<close>, \<open>Source\<close>, \<open>Destination\<close>, \<open>ARC\<close> and
  \<open>Root Cause\<close> are plain lookups that no rule reads; they are left out.  \<open>node_key\<close> is the
  column \<open>child_class\<close> of the GDN table and \<open>Combined Classes\<close> of the IAS table.  All
  columns but \<open>risk score\<close> (float) and \<open>Cadence Score\<close> (int) hold \<open>str\<close> values: each is
  built with \<open>astype(str)\<close> or \<open>str(x)\<close>.  A column that a later stage creates
  (\<open>Previous ...\<close>, \<open>Due Date\<close>) holds \<open>NOT_FOUND\<close> until then.
\<close>

record cadence_row =
  node_key :: string
  Policies :: string
  risk_score :: real
  Resolved_Date :: string
  NC_Count :: string
  Cadence_Score :: int
  JSR :: string
  Previous_Cadence :: string
  Previous_Due_Date :: string
  Previous_NC :: string
  Due_Date :: string

subsection \<open>\<open>update_cadence_score\<close> (IAS and GDN: the same text)\<close>

text \<open>Comparisons of a float column with a constant: false on \<open>NaN\<close>.\<close>

definition notna :: "real option \<Rightarrow> bool" where
  "notna x = (x \<noteq> None)"

definition nan_ge :: "real option \<Rightarrow> real \<Rightarrow> bool" where
  "nan_ge x k = (case x of None \<Rightarrow> False | Some v \<Rightarrow> k \<le> v)"

definition nan_lt :: "real option \<Rightarrow> real \<Rightarrow> bool" where
  "nan_lt x k = (case x of None \<Rightarrow> False | Some v \<Rightarrow> v < k)"

definition nan_eq :: "real option \<Rightarrow> real \<Rightarrow> bool" where
  "nan_eq x k = (case x of None \<Rightarrow> False | Some v \<Rightarrow> v = k)"

definition np_where :: "bool \<Rightarrow> 'a \<Rightarrow> 'a \<Rightarrow> 'a" where
  "np_where c v s = (if c then v else s)"

definition isin :: "real \<Rightarrow> real list \<Rightarrow> bool" where
  "isin x vs = (x \<in> set vs)"

text \<open>
  The chain of \<open>np.where\<close> assignments for one row, in the order of the source.  The scores are
  whole numbers, so the round trip \<open>astype(float)\<close> ... \<open>astype(int)\<close> is left out.
\<close>

definition new_score_of :: "real option \<Rightarrow> real option \<Rightarrow> real option \<Rightarrow> real \<Rightarrow> int \<Rightarrow> int" where
  "new_score_of nc_numeric prev_nc_numeric prev_cad_numeric risk score0 =
    (let has_prev_cad = notna prev_cad_numeric;
         has_nc = notna nc_numeric;
         has_prev_nc = notna prev_nc_numeric;
         new_score = score0;
         mask_30 = (has_prev_cad \<and> nan_eq prev_cad_numeric 30);
         new_score = np_where (mask_30 \<and> has_nc \<and> nan_ge nc_numeric 10) 30 new_score;
         new_score = np_where (mask_30 \<and> has_nc \<and> nan_lt nc_numeric 10 \<and> has_prev_nc \<and> nan_ge prev_nc_numeric 10) 30 new_score;
         new_score = np_where (mask_30 \<and> (\<not> has_nc) \<and> has_prev_nc \<and> nan_ge prev_nc_numeric 10) 30 new_score;
         new_score = np_where (mask_30 \<and> has_nc \<and> nan_lt nc_numeric 10 \<and> has_prev_nc \<and> nan_lt prev_nc_numeric 10) 60 new_score;
         new_score = np_where (mask_30 \<and> has_nc \<and> nan_lt nc_numeric 10 \<and> (\<not> has_prev_nc)) 60 new_score;
         mask_60 = (has_prev_cad \<and> nan_eq prev_cad_numeric 60);
         new_score = np_where (mask_60 \<and> has_nc \<and> nan_ge nc_numeric 10) 30 new_score;
         new_score = np_where (mask_60 \<and> has_nc \<and> nan_lt nc_numeric 10 \<and> has_prev_nc \<and> nan_ge prev_nc_numeric 10) 60 new_score;
         new_score = np_where (mask_60 \<and> (\<not> has_nc) \<and> has_prev_nc \<and> nan_ge prev_nc_numeric 10) 60 new_score;
         new_score = np_where (mask_60 \<and> has_nc \<and> nan_lt nc_numeric 10 \<and> has_prev_nc \<and> nan_lt prev_nc_numeric 10) 90 new_score;
         new_score = np_where (mask_60 \<and> has_nc \<and> nan_lt nc_numeric 10 \<and> (\<not> has_prev_nc)) 90 new_score;
         mask_90 = (has_prev_cad \<and> nan_eq prev_cad_numeric 90);
         new_score = np_where (mask_90 \<and> has_nc \<and> nan_ge nc_numeric 10) 60 new_score;
         new_score = np_where (mask_90 \<and> has_nc \<and> nan_lt nc_numeric 10 \<and> has_prev_nc \<and> nan_ge prev_nc_numeric 10) 90 new_score;
         new_score = np_where (mask_90 \<and> (\<not> has_nc) \<and> has_prev_nc \<and> nan_ge prev_nc_numeric 10) 90 new_score;
         new_score = np_where (mask_90 \<and> has_nc \<and> nan_lt nc_numeric 10 \<and> has_prev_nc \<and> nan_lt prev_nc_numeric 10 \<and> isin risk [1, 2, 3]) 90 new_score;
         new_score = np_where (mask_90 \<and> has_nc \<and> nan_lt nc_numeric 10 \<and> has_prev_nc \<and> nan_lt prev_nc_numeric 10 \<and> isin risk [4, 5]) 180 new_score;
         new_score = np_where (mask_90 \<and> has_nc \<and> nan_lt nc_numeric 10 \<and> (\<not> has_prev_nc) \<and> isin risk [1, 2, 3]) 90 new_score;
         new_score = np_where (mask_90 \<and> has_nc \<and> nan_lt nc_numeric 10 \<and> (\<not> has_prev_nc) \<and> isin risk [4, 5]) 180 new_score;
         mask_180 = (has_prev_cad \<and> nan_eq prev_cad_numeric 180);
         new_score = np_where (mask_180 \<and> has_nc \<and> nan_ge nc_numeric 15) 90 new_score;
         new_score = np_where (mask_180 \<and> has_nc \<and> nan_lt nc_numeric 15 \<and> has_prev_nc \<and> nan_ge prev_nc_numeric 15) 180 new_score;
         new_score = np_where (mask_180 \<and> (\<not> has_nc) \<and> has_prev_nc \<and> nan_ge prev_nc_numeric 15) 180 new_score;
         new_score = np_where (mask_180 \<and> has_nc \<and> nan_lt nc_numeric 15 \<and> has_prev_nc \<and> nan_lt prev_nc_numeric 15 \<and> risk = 4) 180 new_score;
         new_score = np_where (mask_180 \<and> has_nc \<and> nan_lt nc_numeric 15 \<and> has_prev_nc \<and> nan_lt prev_nc_numeric 15 \<and> risk \<noteq> 4) 365 new_score;
         new_score = np_where (mask_180 \<and> has_nc \<and> nan_lt nc_numeric 15 \<and> (\<not> has_prev_nc) \<and> risk = 4) 180 new_score;
         new_score = np_where (mask_180 \<and> has_nc \<and> nan_lt nc_numeric 15 \<and> (\<not> has_prev_nc) \<and> risk \<noteq> 4) 365 new_score;
         mask_365 = (has_prev_cad \<and> nan_eq prev_cad_numeric 365);
         new_score = np_where (mask_365 \<and> has_nc \<and> nan_ge nc_numeric 15) 180 new_score;
         new_score = np_where (mask_365 \<and> has_nc \<and> nan_lt nc_numeric 15 \<and> has_prev_nc \<and> nan_ge prev_nc_numeric 15) 365 new_score;
         new_score = np_where (mask_365 \<and> (\<not> has_nc) \<and> has_prev_nc \<and> nan_ge prev_nc_numeric 15) 365 new_score;
         new_score = np_where (mask_365 \<and> has_nc \<and> nan_lt nc_numeric 15 \<and> has_prev_nc \<and> nan_lt prev_nc_numeric 15) 365 new_score;
         new_score = np_where (mask_365 \<and> has_nc \<and> nan_lt nc_numeric 15 \<and> (\<not> has_prev_nc)) 365 new_score
     in new_score)"

text \<open>The data frame version works column by column; each row depends on its own cells only.\<close>

definition update_row :: "pylib \<Rightarrow> ('a cadence_row_scheme) \<Rightarrow> ('a cadence_row_scheme)" where
  "update_row lib r =
     r\<lparr>Cadence_Score :=
         new_score_of (convert lib (Str (NC_Count r))) (convert lib (Str (Previous_NC r)))
           (convert lib (Str (Previous_Cadence r))) (risk_score r) (Cadence_Score r)\<rparr>"

definition update_cadence_score :: "pylib \<Rightarrow> ('a cadence_row_scheme) list \<Rightarrow> ('a cadence_row_scheme) list" where
  "update_cadence_score lib Cadence = map (update_row lib) Cadence"

subsection \<open>\<open>calculate_due_dates\<close> (IAS and GDN: the same text)\<close>

text \<open>The four \<open>if\<close> blocks that choose \<open>days\<close>, each overwriting the one before.\<close>

definition due_days :: "real \<Rightarrow> int \<Rightarrow> int option" where
  "due_days nc cad =
     (let days = None;
          days = (if nc < 10 then
                    (if cad = 30 then Some 30 else if cad = 60 then Some 60
                     else if cad = 90 then Some 90 else days)
                  else days);
          days = (if nc < 15 then
                    (if cad = 180 then Some 180 else if cad = 365 then Some 365 else days)
                  else days);
          days = (if 10 \<le> nc then
                    (if cad = 30 then Some 30 else if cad = 60 then Some 30
                     else if cad = 90 then Some 60 else days)
                  else days);
          days = (if 15 \<le> nc then
                    (if cad = 180 then Some 90 else if cad = 365 then Some 180 else days)
                  else days)
      in days)"

text \<open>The body of the first loop: the due date of one row.\<close>

definition due_date_of :: "pylib \<Rightarrow> ('a cadence_row_scheme) \<Rightarrow> string" where
  "due_date_of lib r =
     (case convert lib (Str (NC_Count r)) of
        None \<Rightarrow> NOT_FOUND
      | Some nc \<Rightarrow>
          if is_not_found (Str (Resolved_Date r)) then NOT_FOUND
          else (case due_days nc (Cadence_Score r) of
                  Some days \<Rightarrow> add_days_to_date lib (Str (Resolved_Date r)) days
                | None \<Rightarrow> NOT_FOUND))"

text \<open>\<open>int(x)\<close> on a float truncates towards zero.\<close>

definition py_int :: "real \<Rightarrow> int" where
  "py_int x = (if 0 \<le> x then \<lfloor>x\<rfloor> else \<lceil>x\<rceil>)"

text \<open>
  The second loop can abort the run.  Its \<open>try\<close> around
  \<open>Cadence.at[idx, 'Cadence Score'] = int(float(prev_cad))\<close> catches \<open>ValueError\<close> and
  \<open>TypeError\<close> only: on an infinity \<open>int\<close> raises \<open>OverflowError\<close>, which leaves
  \<open>calculate_due_dates\<close> and ends \<open>process\<close> in its \<open>except Exception\<close> branch, without a
  table.  The column \<open>Cadence Score\<close> is an \<open>int64\<close> column (\<open>astype(int)\<close> at the end of
  \<open>update_cadence_score\<close>); an integer within \<open>int64\<close> is stored as it is, and what the
  assignment does with one outside is \<open>at_out_of_int64\<close> of the library.
\<close>

definition fits_int64 :: "int \<Rightarrow> bool" where
  "fits_int64 n = (- (2 ^ 63) \<le> n \<and> n < 2 ^ 63)"

text \<open>The body of the second loop: the fallback to the previous period's values.  A
  \<open>ValueError\<close> of \<open>float\<close> (or of \<open>int\<close> on \<open>NaN\<close>) is caught and leaves the score as it is;
  the due date is carried forward after that, unless the row has aborted the run.\<close>

definition fallback :: "pylib \<Rightarrow> ('a cadence_row_scheme) \<Rightarrow> error + ('a cadence_row_scheme)" where
  "fallback lib r =
     (if is_not_found (Str (NC_Count r)) then
        let prev_cad = Previous_Cadence r;
            r1 = (if \<not> is_not_found (Str prev_cad) then
                    (if float_is_inf lib prev_cad then Inl OverflowError
                     else case float_of lib prev_cad of
                       None \<Rightarrow> Inr r
                     | Some x \<Rightarrow>
                         if fits_int64 (py_int x) then Inr (r\<lparr>Cadence_Score := py_int x\<rparr>)
                         else (case at_out_of_int64 lib (py_int x) of
                                 Inl e \<Rightarrow> Inl e
                               | Inr None \<Rightarrow> Inr r
                               | Inr (Some m) \<Rightarrow> Inr (r\<lparr>Cadence_Score := m\<rparr>)))
                  else Inr r);
            prev_due = Previous_Due_Date r
        in (case r1 of
              Inl e \<Rightarrow> Inl e
            | Inr r1 \<Rightarrow> Inr (if \<not> is_not_found (Str prev_due) then r1\<lparr>Due_Date := prev_due\<rparr> else r1))
      else Inr r)"

text \<open>The second loop: row after row, stopping at the first row that raises.\<close>

fun fallback_loop :: "pylib \<Rightarrow> ('a cadence_row_scheme) list \<Rightarrow> error + ('a cadence_row_scheme) list" where
  "fallback_loop lib [] = Inr []"
| "fallback_loop lib (r # rs) =
     (case fallback lib r of
        Inl e \<Rightarrow> Inl e
      | Inr r' \<Rightarrow> (case fallback_loop lib rs of Inl e \<Rightarrow> Inl e | Inr rs' \<Rightarrow> Inr (r' # rs')))"

definition calculate_due_dates :: "pylib \<Rightarrow> ('a cadence_row_scheme) list \<Rightarrow> error + ('a cadence_row_scheme) list" where
  "calculate_due_dates lib Cadence =
     fallback_loop lib (map (\<lambda>r. r\<lparr>Due_Date := due_date_of lib r\<rparr>) Cadence)"

subsection \<open>\<open>finalize_cadence\<close>\<close>

text \<open>The part common to both processors: risk 0 becomes 1, the integer score column is
  coerced to itself, the due date is normalised.\<close>

definition finalize_row :: "pylib \<Rightarrow> ('a cadence_row_scheme) \<Rightarrow> ('a cadence_row_scheme)" where
  "finalize_row lib r =
     r\<lparr>risk_score := (if risk_score r = 0 then 1 else risk_score r),
       Due_Date := date_to_string lib (Str (Due_Date r))\<rparr>"

definition finalize_cadence :: "pylib \<Rightarrow> ('a cadence_row_scheme) list \<Rightarrow> ('a cadence_row_scheme) list" where
  "finalize_cadence lib Cadence = map (finalize_row lib) Cadence"

section \<open>The input tables\<close>

text \<open>
  A row of the normalised ARMT table, the result of \<open>process_armt\<close>: the columns the later
  stages read.  \<open>policy_name\<close> is \<open>None\<close> for a missing value; \<open>parent_score\<close> is any cell.
  The IAS keys \<open>ARC\<close>, \<open>combined_class\<close> and \<open>combined_class2\<close> are the string sums that
  \<open>process_armt\<close> stores in columns of the same names.
\<close>

record armt_row =
  a_program :: string
  a_parent_class :: string
  a_child_class :: string
  a_policy_name :: "string option"
  a_Source :: string
  a_Destination :: string
  a_parent_score :: cell

definition ARC :: "armt_row \<Rightarrow> string" where
  "ARC r = a_Source r @ ''-'' @ a_Destination r"

definition combined_class :: "armt_row \<Rightarrow> string" where
  "combined_class r = a_parent_class r @ '','' @ a_child_class r @ '','' @ a_Source r"

definition combined_class2 :: "armt_row \<Rightarrow> string" where
  "combined_class2 r = a_parent_class r @ '','' @ a_child_class r @ '','' @ ARC r"

text \<open>
  A row of the Outflow table inside \<open>process_outflow\<close>, at the point where the rows are
  filtered, \<open>child_class\<close> and \<open>parent_class\<close> are derived and the resolved date is parsed
  with \<open>pd.to_datetime(..., errors='coerce')\<close> (\<open>None\<close> is \<open>NaT\<close>); \<open>resolution\<close> is the text
  before the first backslash, \<open>quantity\<close> and \<open>vendor_id\<close> are the coerced numbers.
\<close>

record outflow_parsed =
  p_child_class :: string
  p_parent_class :: string
  p_resolved :: "int option"
  p_resolution :: string
  p_quantity :: real
  p_vendor_id :: int

text \<open>A row of the normalised Outflow table that \<open>process_outflow\<close> returns.\<close>

record outflow_row =
  o_child_class :: string
  o_parent_class :: string
  o_Resolved_date :: string
  o_resolution :: string
  o_NC :: real

text \<open>Rows of the master file (the previous period's output), GDN and IAS.\<close>

record gdn_master_row =
  gm_child_class :: string
  gm_Cadence_Score :: cell
  gm_Due_Date :: cell
  gm_NC_Count :: cell

record ias_master_row =
  im_Parent_Classes :: string
  im_Child_Classes :: string
  im_Source :: string
  im_ARC :: string
  im_Cadence_Score :: cell
  im_Due_Date :: cell
  im_NC_Count :: cell

subsection \<open>pandas operations on tables\<close>

text \<open>\<open>df.drop_duplicates(subset=[k]).set_index(k)[col].to_dict()\<close> followed by \<open>cc.map\<close>:
  the first row with the key, if any.\<close>

definition lookup_first :: "('r \<Rightarrow> string) \<Rightarrow> 'r list \<Rightarrow> string \<Rightarrow> 'r option" where
  "lookup_first key rows k = find (\<lambda>r. key r = k) rows"

text \<open>\<open>df.sort_values(by=col, ascending=False)\<close> on a column of strings, as an insertion sort
  that keeps rows with equal keys in their order.  pandas promises no order among equal keys;
  the stages below read from the sorted table only the sort key of the first row of a group.\<close>

fun insert_desc :: "('r \<Rightarrow> string) \<Rightarrow> 'r \<Rightarrow> 'r list \<Rightarrow> 'r list" where
  "insert_desc key x [] = [x]"
| "insert_desc key x (y # ys) =
     (if key y \<le> key x then x # y # ys else y # insert_desc key x ys)"

definition sort_values_desc :: "('r \<Rightarrow> string) \<Rightarrow> 'r list \<Rightarrow> 'r list" where
  "sort_values_desc key rows = foldr (insert_desc key) rows []"

text \<open>\<open>df.groupby(k, as_index=False)['NC'].sum()\<close> read as a dictionary from key to sum.\<close>

definition groupby_sum :: "('r \<Rightarrow> string) \<Rightarrow> ('r \<Rightarrow> real) \<Rightarrow> 'r list \<Rightarrow> string \<Rightarrow> real option" where
  "groupby_sum key val rows k =
     (case filter (\<lambda>r. key r = k) rows of
        [] \<Rightarrow> None
      | g # gs \<Rightarrow> Some (sum_list (map val (g # gs))))"

section \<open>The stages common to GDN and IAS\<close>

definition RISK_TO_CADENCE :: "(real \<times> int) list" where
  "RISK_TO_CADENCE = [(0, 30), (1, 30), (2, 60), (3, 90), (4, 180), (5, 365)]"

text \<open>\<open>Cadence['risk score'].map(RISK_TO_CADENCE).fillna(30).astype(int)\<close>.\<close>

definition initial_score :: "real \<Rightarrow> int" where
  "initial_score risk = (case map_of RISK_TO_CADENCE risk of Some c \<Rightarrow> c | None \<Rightarrow> 30)"

text \<open>\<open>cc.map(lookup['parent_score']).fillna(1)\<close>, then \<open>safe_to_numeric(...).fillna(1)\<close>.\<close>

definition risk_of :: "pylib \<Rightarrow> armt_row option \<Rightarrow> real" where
  "risk_of lib a =
     (case a of
        None \<Rightarrow> 1
      | Some r \<Rightarrow> (case convert lib (a_parent_score r) of None \<Rightarrow> 1 | Some x \<Rightarrow> x))"

text \<open>\<open>cc.map(lookup['policy_name']).fillna(NOT_FOUND).astype(str)\<close>.\<close>

definition policies_of :: "armt_row option \<Rightarrow> string" where
  "policies_of a =
     (case a of
        None \<Rightarrow> NOT_FOUND
      | Some r \<Rightarrow> (case a_policy_name r of None \<Rightarrow> NOT_FOUND | Some s \<Rightarrow> s))"

text \<open>\<open>str.contains('_JSR|-JSR', na=False, regex=True).map({True: 'Yes', False: 'No'})\<close>.\<close>

definition jsr_of :: "string \<Rightarrow> string" where
  "jsr_of policies = (if contains policies ''_JSR'' \<or> contains policies ''-JSR'' then ''Yes'' else ''No'')"

text \<open>The resolved date of the first Outflow row of a key, through \<open>date_to_string\<close>.\<close>

definition resolved_of :: "pylib \<Rightarrow> outflow_row option \<Rightarrow> string" where
  "resolved_of lib out =
     (case out of None \<Rightarrow> NOT_FOUND | Some r \<Rightarrow> date_to_string lib (Str (o_Resolved_date r)))"

text \<open>\<open>cc.map(nc_lookup).apply(lambda x: NOT_FOUND if pd.isna(x) else str(x))\<close>.\<close>

definition nc_count_of :: "pylib \<Rightarrow> real option \<Rightarrow> string" where
  "nc_count_of lib x = (case x of None \<Rightarrow> NOT_FOUND | Some v \<Rightarrow> str_of_num lib v)"

text \<open>The three master lookups.  A numeric score is written \<open>str(int(x))\<close>.\<close>

definition previous_cadence_of :: "pylib \<Rightarrow> cell option \<Rightarrow> string" where
  "previous_cadence_of lib x =
     (case x of
        None \<Rightarrow> NOT_FOUND
      | Some Null \<Rightarrow> NOT_FOUND
      | Some (Num v) \<Rightarrow> str_of_int lib (py_int v)
      | Some (Str s) \<Rightarrow> s
      | Some (Stamp d) \<Rightarrow> str_of_stamp lib d)"

definition previous_due_date_of :: "pylib \<Rightarrow> cell option \<Rightarrow> string" where
  "previous_due_date_of lib x =
     (case x of None \<Rightarrow> NOT_FOUND | Some v \<Rightarrow> date_to_string lib v)"

definition previous_nc_of :: "pylib \<Rightarrow> cell option \<Rightarrow> string" where
  "previous_nc_of lib x =
     (case x of
        None \<Rightarrow> NOT_FOUND
      | Some Null \<Rightarrow> NOT_FOUND
      | Some (Num v) \<Rightarrow> str_of_num lib v
      | Some (Str s) \<Rightarrow> s
      | Some (Stamp d) \<Rightarrow> str_of_stamp lib d)"

text \<open>The tail of \<open>process_outflow\<close>: the date column as strings, and the rule that a child
  class equal to its parent class becomes \<open>No-Child\<close>.\<close>

definition normalise_outflow :: "pylib \<Rightarrow> outflow_parsed \<Rightarrow> outflow_row" where
  "normalise_outflow lib p =
     \<lparr>o_child_class = p_child_class p, o_parent_class = p_parent_class p,
      o_Resolved_date = date_to_string lib (case p_resolved p of None \<Rightarrow> Null | Some d \<Rightarrow> Stamp d),
      o_resolution = p_resolution p,
      o_NC = p_quantity p + of_int (p_vendor_id p)\<rparr>"

definition no_child :: "outflow_row \<Rightarrow> outflow_row" where
  "no_child r = (if o_child_class r = o_parent_class r then r\<lparr>o_child_class := ''No-Child''\<rparr> else r)"

section \<open>GDNProcessor\<close>

definition GDN_Core :: "string list" where
  "GDN_Core = [''DE'', ''ANY'', ''Any'']"

definition GDN_Cross :: "string list" where
  "GDN_Cross = [''DE'', ''TR'', ''UK'', ''Any'']"

definition GDN_Excluded_Sources :: "string list" where
  "GDN_Excluded_Sources = [''JP'', ''FR'', ''IT'', ''ES'', ''CN'', ''US'', ''AU'', ''SG'', ''AE'', ''IN'',
     ''SA'', ''CA'', ''NL'', ''EG'', ''MX'', ''UK'']"

text \<open>\<open>process_outflow\<close> of GDN: dates to strings, sort descending, the \<open>No-Child\<close> loop, the
  NC sums by \<open>child_class\<close>.\<close>

definition gdn_process_outflow :: "pylib \<Rightarrow> outflow_parsed list \<Rightarrow> outflow_row list \<times> (string \<Rightarrow> real option)" where
  "gdn_process_outflow lib parsed =
     (let outflow = map (normalise_outflow lib) parsed;
          outflow = sort_values_desc o_Resolved_date outflow;
          outflow = map no_child outflow;
          outflow1 = groupby_sum o_child_class o_NC outflow
      in (outflow, outflow1))"

text \<open>
  \<open>create_nodes\<close> of GDN.  The body of the loop adds \<open>child_class\<close> to the set \<open>nodes\<close> once
  for every match; \<open>gdn_row_nodes\<close> lists these additions for one row.  \<open>list(nodes)\<close>
  enumerates a Python set of strings, whose order is fixed by the string hashes of the
  interpreter run; the model takes that enumeration as the parameter \<open>list_of_set\<close>, applied
  to the sequence of additions.
\<close>

definition gdn_row_nodes :: "armt_row \<Rightarrow> string list" where
  "gdn_row_nodes r =
     (let source = split_on (CHR '','') (a_Source r);
          destination = split_on (CHR '','') (a_Destination r);
          program = a_program r;
          child_class = a_child_class r
      in map (\<lambda>j. child_class) (filter (\<lambda>j. strip j \<in> set GDN_Core) source)
         @ (if program = ''CrossListing'' then
              concat (map (\<lambda>k. map (\<lambda>t. child_class)
                        (filter (\<lambda>t. strip k \<in> set GDN_Cross \<and> strip t \<notin> set GDN_Excluded_Sources) source))
                      destination)
            else []))"

definition gdn_create_nodes :: "(string list \<Rightarrow> string list) \<Rightarrow> armt_row list \<Rightarrow> string list" where
  "gdn_create_nodes list_of_set armt = list_of_set (concat (map gdn_row_nodes armt))"

definition gdn_cadence_row ::
  "pylib \<Rightarrow> armt_row list \<Rightarrow> outflow_row list \<Rightarrow> (string \<Rightarrow> real option) \<Rightarrow> string \<Rightarrow> cadence_row" where
  "gdn_cadence_row lib armt outflow outflow1 cc =
     (let a = lookup_first a_child_class armt cc;
          out = lookup_first o_child_class outflow cc;
          risk = risk_of lib a
      in \<lparr>node_key = cc, Policies = policies_of a, risk_score = risk,
           Resolved_Date = resolved_of lib out, NC_Count = nc_count_of lib (outflow1 cc),
           Cadence_Score = initial_score risk, JSR = jsr_of (policies_of a),
           Previous_Cadence = NOT_FOUND, Previous_Due_Date = NOT_FOUND, Previous_NC = NOT_FOUND,
           Due_Date = NOT_FOUND\<rparr>)"

definition gdn_create_cadence ::
  "pylib \<Rightarrow> string list \<Rightarrow> armt_row list \<Rightarrow> outflow_row list \<Rightarrow> (string \<Rightarrow> real option) \<Rightarrow> cadence_row list" where
  "gdn_create_cadence lib nodes armt outflow outflow1 = map (gdn_cadence_row lib armt outflow outflow1) nodes"

text \<open>\<open>apply_master_lookups\<close> of GDN; \<open>has_nc_count\<close> is \<open>'NC Count' in master.columns\<close>.\<close>

definition gdn_master_row_lookups :: "pylib \<Rightarrow> gdn_master_row list \<Rightarrow> bool \<Rightarrow> cadence_row \<Rightarrow> cadence_row" where
  "gdn_master_row_lookups lib master has_nc_count r =
     (let m = lookup_first gm_child_class master (node_key r)
      in r\<lparr>Previous_Cadence := previous_cadence_of lib (map_option gm_Cadence_Score m),
           Previous_Due_Date := previous_due_date_of lib (map_option gm_Due_Date m),
           Previous_NC := (if has_nc_count then previous_nc_of lib (map_option gm_NC_Count m)
                           else NOT_FOUND)\<rparr>)"

definition gdn_apply_master_lookups :: "pylib \<Rightarrow> cadence_row list \<Rightarrow> gdn_master_row list \<Rightarrow> bool \<Rightarrow> cadence_row list" where
  "gdn_apply_master_lookups lib Cadence master has_nc_count =
     map (gdn_master_row_lookups lib master has_nc_count) Cadence"

text \<open>\<open>process\<close> of GDN from the parsed tables.  The empty node list is the error return;
  an exception of \<open>calculate_due_dates\<close> ends the run in the \<open>except Exception\<close> branch.\<close>

definition gdn_process ::
  "pylib \<Rightarrow> (string list \<Rightarrow> string list) \<Rightarrow> armt_row list \<Rightarrow> outflow_parsed list \<Rightarrow>
   gdn_master_row list \<Rightarrow> bool \<Rightarrow> error + cadence_row list" where
  "gdn_process lib list_of_set armt parsed master has_nc_count =
     (case gdn_process_outflow lib parsed of
        (outflow, outflow1) \<Rightarrow>
          let nodes = gdn_create_nodes list_of_set armt
          in if length nodes = 0 then Inl NoNodes
             else
               let Cadence = gdn_create_cadence lib nodes armt outflow outflow1;
                   Cadence = gdn_apply_master_lookups lib Cadence master has_nc_count;
                   Cadence = update_cadence_score lib Cadence
               in case calculate_due_dates lib Cadence of
                    Inl e \<Rightarrow> Inl e
                  | Inr Cadence \<Rightarrow> Inr (finalize_cadence lib Cadence))"

section \<open>IASProcessor\<close>

definition IAS_CrossListing_Sources :: "string list" where
  "IAS_CrossListing_Sources = [''FR'', ''IT'', ''ES'', ''MX'']"

text \<open>The keys of an Outflow row: \<open>source\<close> is \<open>resolution.split('-')[0]\<close>.\<close>

definition o_source :: "outflow_row \<Rightarrow> string" where
  "o_source r = takeWhile (\<lambda>c. c \<noteq> CHR ''-'') (o_resolution r)"

definition o_combined_class :: "outflow_row \<Rightarrow> string" where
  "o_combined_class r = o_parent_class r @ '','' @ o_child_class r @ '','' @ o_source r"

definition o_combined_class2 :: "outflow_row \<Rightarrow> string" where
  "o_combined_class2 r = o_parent_class r @ '','' @ o_child_class r @ '','' @ o_resolution r"

text \<open>\<open>process_outflow\<close> of IAS: the \<open>No-Child\<close> rule, dates to strings, sort descending, the
  \<open>No-Child\<close> rule again, the NC sums by each key.\<close>

definition ias_process_outflow ::
  "pylib \<Rightarrow> outflow_parsed list \<Rightarrow> outflow_row list \<times> (string \<Rightarrow> real option) \<times> (string \<Rightarrow> real option)" where
  "ias_process_outflow lib parsed =
     (let outflow = map (normalise_outflow lib) parsed;
          outflow = map no_child outflow;
          outflow = sort_values_desc o_Resolved_date outflow;
          outflow = map no_child outflow;
          outflow1 = groupby_sum o_combined_class o_NC outflow;
          outflow2 = groupby_sum o_combined_class2 o_NC outflow
      in (outflow, outflow1, outflow2))"

text \<open>\<open>create_nodes\<close> of IAS: the keys are added to a set in this order, and \<open>list(nodes)\<close>
  enumerates the set (the parameter \<open>list_of_set\<close>, as for GDN).\<close>

definition ias_create_nodes :: "(string list \<Rightarrow> string list) \<Rightarrow> armt_row list \<Rightarrow> string list" where
  "ias_create_nodes list_of_set armt =
     (let ag_data = filter (\<lambda>r. a_program r = ''AmazonGlobal'') armt;
          fr = map combined_class (filter (\<lambda>r. a_Source r = ''FR'') ag_data);
          it = map combined_class (filter (\<lambda>r. a_Source r = ''IT'') ag_data);
          es = map combined_class (filter (\<lambda>r. a_Source r = ''ES'') ag_data);
          cl = map combined_class2
                 (filter (\<lambda>r. a_program r = ''CrossListing'' \<and> a_Source r \<in> set IAS_CrossListing_Sources) armt)
      in list_of_set (fr @ it @ es @ cl))"

text \<open>The IAS table carries a second copy of the looked-up columns, found under the second
  key; \<open>finalize_cadence\<close> drops them.\<close>

record ias_row = cadence_row +
  Policies2 :: string
  risk_score2 :: real
  Resolved_Date2 :: string
  NC_Count2 :: string
  Cadence_Score2 :: int
  Previous_Cadence2 :: string
  Previous_Due_Date2 :: string

definition ias_cadence_row ::
  "pylib \<Rightarrow> armt_row list \<Rightarrow> outflow_row list \<Rightarrow> (string \<Rightarrow> real option) \<Rightarrow> (string \<Rightarrow> real option) \<Rightarrow>
   string \<Rightarrow> ias_row" where
  "ias_cadence_row lib armt outflow outflow1 outflow2 cc =
     (let a1 = lookup_first combined_class armt cc;
          a2 = lookup_first combined_class2 armt cc;
          out1 = lookup_first o_combined_class outflow cc;
          out2 = lookup_first o_combined_class2 outflow cc;
          risk = risk_of lib a1;
          risk2 = risk_of lib a2
      in \<lparr>node_key = cc, Policies = policies_of a1, risk_score = risk,
           Resolved_Date = resolved_of lib out1, NC_Count = nc_count_of lib (outflow1 cc),
           Cadence_Score = initial_score risk, JSR = jsr_of (policies_of a1),
           Previous_Cadence = NOT_FOUND, Previous_Due_Date = NOT_FOUND, Previous_NC = NOT_FOUND,
           Due_Date = NOT_FOUND,
           Policies2 = policies_of a2, risk_score2 = risk2,
           Resolved_Date2 = resolved_of lib out2, NC_Count2 = nc_count_of lib (outflow2 cc),
           Cadence_Score2 = initial_score risk2,
           Previous_Cadence2 = NOT_FOUND, Previous_Due_Date2 = NOT_FOUND\<rparr>)"

definition ias_create_cadence ::
  "pylib \<Rightarrow> string list \<Rightarrow> armt_row list \<Rightarrow> outflow_row list \<Rightarrow> (string \<Rightarrow> real option) \<Rightarrow>
   (string \<Rightarrow> real option) \<Rightarrow> ias_row list" where
  "ias_create_cadence lib nodes armt outflow outflow1 outflow2 =
     map (ias_cadence_row lib armt outflow outflow1 outflow2) nodes"

text \<open>\<open>apply_master_lookups\<close> of IAS: the two keys are rebuilt on the master's columns.\<close>

definition Combined_Classes :: "ias_master_row \<Rightarrow> string" where
  "Combined_Classes m = im_Parent_Classes m @ '','' @ im_Child_Classes m @ '','' @ im_Source m"

definition Combined_Classes2 :: "ias_master_row \<Rightarrow> string" where
  "Combined_Classes2 m = im_Parent_Classes m @ '','' @ im_Child_Classes m @ '','' @ im_ARC m"

definition ias_master_row_lookups :: "pylib \<Rightarrow> ias_master_row list \<Rightarrow> bool \<Rightarrow> ias_row \<Rightarrow> ias_row" where
  "ias_master_row_lookups lib master has_nc_count r =
     (let m1 = lookup_first Combined_Classes master (node_key r);
          m2 = lookup_first Combined_Classes2 master (node_key r)
      in r\<lparr>Previous_Cadence := previous_cadence_of lib (map_option im_Cadence_Score m1),
           Previous_Cadence2 := previous_cadence_of lib (map_option im_Cadence_Score m2),
           Previous_Due_Date := previous_due_date_of lib (map_option im_Due_Date m1),
           Previous_Due_Date2 := previous_due_date_of lib (map_option im_Due_Date m2),
           Previous_NC := (if has_nc_count then previous_nc_of lib (map_option im_NC_Count m1)
                           else NOT_FOUND)\<rparr>)"

definition ias_apply_master_lookups :: "pylib \<Rightarrow> ias_row list \<Rightarrow> ias_master_row list \<Rightarrow> bool \<Rightarrow> ias_row list" where
  "ias_apply_master_lookups lib Cadence master has_nc_count =
     map (ias_master_row_lookups lib master has_nc_count) Cadence"

text \<open>\<open>merge_columns\<close>: where the primary column is not found, the secondary value replaces
  it.  Of the pairs of the source, those of the modelled columns; \<open>risk score\<close>,
  \<open>Cadence Score\<close> and \<open>JSR\<close> are in no pair.\<close>

definition merge_value :: "string \<Rightarrow> string \<Rightarrow> string" where
  "merge_value primary secondary = (if is_not_found (Str primary) then secondary else primary)"

definition merge_row :: "ias_row \<Rightarrow> ias_row" where
  "merge_row r =
     r\<lparr>Policies := merge_value (Policies r) (Policies2 r),
       Resolved_Date := merge_value (Resolved_Date r) (Resolved_Date2 r),
       Previous_Cadence := merge_value (Previous_Cadence r) (Previous_Cadence2 r),
       Previous_Due_Date := merge_value (Previous_Due_Date r) (Previous_Due_Date2 r),
       NC_Count := merge_value (NC_Count r) (NC_Count2 r)\<rparr>"

definition merge_columns :: "ias_row list \<Rightarrow> ias_row list" where
  "merge_columns Cadence = map merge_row Cadence"

text \<open>\<open>finalize_cadence\<close> of IAS drops the secondary columns first.\<close>

definition ias_finalize_cadence :: "pylib \<Rightarrow> ias_row list \<Rightarrow> cadence_row list" where
  "ias_finalize_cadence lib Cadence = finalize_cadence lib (map cadence_row.truncate Cadence)"

definition ias_process ::
  "pylib \<Rightarrow> (string list \<Rightarrow> string list) \<Rightarrow> armt_row list \<Rightarrow> outflow_parsed list \<Rightarrow>
   ias_master_row list \<Rightarrow> bool \<Rightarrow> error + cadence_row list" where
  "ias_process lib list_of_set armt parsed master has_nc_count =
     (case ias_process_outflow lib parsed of
        (outflow, outflow1, outflow2) \<Rightarrow>
          let nodes = ias_create_nodes list_of_set armt
          in if length nodes = 0 then Inl NoNodes
             else
               let Cadence = ias_create_cadence lib nodes armt outflow outflow1 outflow2;
                   Cadence = ias_apply_master_lookups lib Cadence master has_nc_count;
                   Cadence = merge_columns Cadence;
                   Cadence = update_cadence_score lib Cadence
               in case calculate_due_dates lib Cadence of
                    Inl e \<Rightarrow> Inl e
                  | Inr Cadence \<Rightarrow> Inr (ias_finalize_cadence lib Cadence))"

section \<open>A concrete instance of the library functions\<close>

text \<open>
  The theorems hold for every \<open>lib\<close>.  To run the model on concrete rows, \<open>lib0\<close> implements a
  fragment of the library functions: \<open>float\<close> on plain decimal numerals and on the words
  for the infinities, \<open>str\<close> on numbers
  with one decimal digit, \<open>pd.to_datetime\<close> and \<open>strftime\<close> on ISO dates \<open>YYYY-MM-DD\<close>
  (proleptic Gregorian calendar, day 0 = 1970-01-01); the assignment of an integer outside
  \<open>int64\<close> raises \<open>OverflowError\<close>.
\<close>

definition digit_of :: "char \<Rightarrow> nat option" where
  "digit_of c = (let n = (of_char c :: nat) in if 48 \<le> n \<and> n \<le> 57 then Some (n - 48) else None)"

fun digits_value :: "nat \<Rightarrow> string \<Rightarrow> nat option" where
  "digits_value acc [] = Some acc"
| "digits_value acc (c # cs) =
     (case digit_of c of None \<Rightarrow> None | Some v \<Rightarrow> digits_value (10 * acc + v) cs)"

definition nat_of_string :: "string \<Rightarrow> nat option" where
  "nat_of_string s = (if s = [] then None else digits_value 0 s)"

definition unsigned_decimal :: "string \<Rightarrow> real option" where
  "unsigned_decimal s =
     (case split_on (CHR ''.'') s of
        [ip] \<Rightarrow> map_option real (nat_of_string ip)
      | [ip, fp] \<Rightarrow>
          (case (nat_of_string ip, nat_of_string fp) of
             (Some a, Some b) \<Rightarrow> Some (real a + real b / 10 ^ length fp)
           | _ \<Rightarrow> None)
      | _ \<Rightarrow> None)"

definition decimal_float :: "string \<Rightarrow> real option" where
  "decimal_float s =
     (case strip s of
        [] \<Rightarrow> None
      | c # cs \<Rightarrow> if c = CHR ''-'' then map_option uminus (unsigned_decimal cs)
                  else unsigned_decimal (c # cs))"

definition digit_char :: "nat \<Rightarrow> char" where
  "digit_char n = ''0123456789'' ! (n mod 10)"

fun show_nat :: "nat \<Rightarrow> string" where
  "show_nat n = (if n < 10 then [digit_char n] else show_nat (n div 10) @ [digit_char n])"

declare show_nat.simps [simp del]

definition decimal_str :: "real \<Rightarrow> string" where
  "decimal_str x =
     (let a = \<bar>x\<bar>
      in (if x < 0 then ''-'' else '''') @ show_nat (nat \<lfloor>a\<rfloor>) @ ''.'' @ [digit_char (nat \<lfloor>a * 10\<rfloor>)])"

definition days_from_civil :: "int \<Rightarrow> int \<Rightarrow> int \<Rightarrow> int" where
  "days_from_civil y m d =
     (let y' = (if m \<le> 2 then y - 1 else y);
          era = y' div 400;
          yoe = y' - era * 400;
          doy = (153 * (if 2 < m then m - 3 else m + 9) + 2) div 5 + d - 1;
          doe = yoe * 365 + yoe div 4 - yoe div 100 + doy
      in era * 146097 + doe - 719468)"

definition civil_from_days :: "int \<Rightarrow> int \<times> int \<times> int" where
  "civil_from_days z =
     (let z' = z + 719468;
          era = z' div 146097;
          doe = z' - era * 146097;
          yoe = (doe - doe div 1460 + doe div 36524 - doe div 146096) div 365;
          doy = doe - (365 * yoe + yoe div 4 - yoe div 100);
          mp = (5 * doy + 2) div 153;
          d = doy - (153 * mp + 2) div 5 + 1;
          m = (if mp < 10 then mp + 3 else mp - 9);
          y = yoe + era * 400 + (if m \<le> 2 then 1 else 0)
      in (y, m, d))"

definition pad2 :: "int \<Rightarrow> string" where
  "pad2 n = [digit_char (nat n div 10), digit_char (nat n)]"

definition iso_format :: "int \<Rightarrow> string" where
  "iso_format z =
     (case civil_from_days z of
        (y, m, d) \<Rightarrow> pad2 (y div 100) @ pad2 (y mod 100) @ ''-'' @ pad2 m @ ''-'' @ pad2 d)"

definition iso_parse :: "string \<Rightarrow> int option" where
  "iso_parse s =
     (let t = strip s
      in if length t = 10 \<and> t ! 4 = CHR ''-'' \<and> t ! 7 = CHR ''-'' then
           (case (nat_of_string (take 4 t), nat_of_string (take 2 (drop 5 t)), nat_of_string (drop 8 t)) of
              (Some y, Some m, Some d) \<Rightarrow>
                (let z = days_from_civil (int y) (int m) (int d)
                 in if civil_from_days z = (int y, int m, int d) \<and> \<bar>z\<bar> \<le> TS_MAX_DAY then Some z else None)
            | _ \<Rightarrow> None)
         else None)"

definition show_int :: "int \<Rightarrow> string" where
  "show_int n = (if n < 0 then ''-'' @ show_nat (nat (- n)) else show_nat (nat n))"

definition inf_word :: "string \<Rightarrow> bool" where
  "inf_word s = (lower (strip s) \<in> set [''inf'', ''+inf'', ''-inf'', ''infinity'', ''+infinity'', ''-infinity''])"

definition lib0 :: pylib where
  "lib0 = \<lparr>float_of = decimal_float, float_is_inf = inf_word,
           at_out_of_int64 = (\<lambda>n. Inl OverflowError), str_of_num = decimal_str, str_of_int = show_int,
           str_of_stamp = (\<lambda>d. iso_format d @ '' 00:00:00''), to_datetime = iso_parse,
           num_to_datetime = (\<lambda>x. if \<bar>x\<bar> < 9223372036854775808 then Some \<lfloor>x / 86400000000000\<rfloor> else None),
           strftime = iso_format\<rparr>"

section \<open>The rule tables as the specification words them\<close>

text \<open>The step-down threshold \<open>K\<close> of a tier: 10 for the tiers 30, 60, 90 and 15 for 180, 365.\<close>

definition step_down_threshold :: "real \<Rightarrow> real" where
  "step_down_threshold T = (if T = 30 \<or> T = 60 \<or> T = 90 then 10 else 15)"

text \<open>The tier below: 30->30, 60->30, 90->60, 180->90, 365->180.\<close>

definition tier_below :: "real \<Rightarrow> int" where
  "tier_below T = (if T = 30 then 30 else if T = 60 then 30 else if T = 90 then 60
                   else if T = 180 then 90 else 180)"

text \<open>The due-date offsets of the specification, by NC range and cadence score.\<close>

definition spec_offset :: "real \<Rightarrow> int \<Rightarrow> int option" where
  "spec_offset nc cad =
     (if nc < 10 then
        (if cad = 30 \<or> cad = 60 \<or> cad = 90 \<or> cad = 180 \<or> cad = 365 then Some cad else None)
      else if nc < 15 then
        (if cad = 30 then Some 30 else if cad = 60 then Some 30 else if cad = 90 then Some 60
         else if cad = 180 then Some 180 else if cad = 365 then Some 365 else None)
      else
        (if cad = 30 then Some 30 else if cad = 60 then Some 30 else if cad = 90 then Some 60
         else if cad = 180 then Some 90 else if cad = 365 then Some 180 else None))"

text \<open>Rows used to run the model: a previous tier of 90 with no non-compliance at risk 5, and a
  row with no current NC count that carries the previous period forward.\<close>

definition row_promote :: cadence_row where
  "row_promote = \<lparr>node_key = ''Cables'', Policies = ''Pol_A'', risk_score = 5,
     Resolved_Date = ''2024-03-15'', NC_Count = ''0.0'', Cadence_Score = 365, JSR = ''No'',
     Previous_Cadence = ''90'', Previous_Due_Date = ''2024-02-01'', Previous_NC = ''0.0'',
     Due_Date = ''not Found!''\<rparr>"

definition row_carry :: cadence_row where
  "row_carry = \<lparr>node_key = ''Cables'', Policies = ''Pol_A'', risk_score = 1,
     Resolved_Date = ''not Found!'', NC_Count = ''not Found!'', Cadence_Score = 30, JSR = ''No'',
     Previous_Cadence = ''60'', Previous_Due_Date = ''2024-03-15'', Previous_NC = ''not Found!'',
     Due_Date = ''not Found!''\<rparr>"

definition row_absent_nc :: cadence_row where
  "row_absent_nc = \<lparr>node_key = ''Cables'', Policies = ''Pol_A'', risk_score = 1,
     Resolved_Date = ''not Found!'', NC_Count = ''not Found!'', Cadence_Score = 30, JSR = ''No'',
     Previous_Cadence = ''30'', Previous_Due_Date = ''2024-03-15'', Previous_NC = ''5.0'',
     Due_Date = ''not Found!''\<rparr>"

text \<open>A row resolved on 2262-01-01 (day 106651) with NC 0 and score 365: the due date
  2263-01-01 is past the last day a \<open>pd.Timestamp\<close> holds.\<close>

definition row_late :: cadence_row where
  "row_late = \<lparr>node_key = ''Cables'', Policies = ''Pol_A'', risk_score = 5,
     Resolved_Date = ''2262-01-01'', NC_Count = ''0.0'', Cadence_Score = 365, JSR = ''No'',
     Previous_Cadence = ''not Found!'', Previous_Due_Date = ''not Found!'',
     Previous_NC = ''not Found!'', Due_Date = ''not Found!''\<rparr>"


text \<open>The rows on which the fallback aborts the run: no current NC count, and a Previous
  Cadence that is not the sentinel and reads as an infinity, or as a number whose integer part
  is outside \<open>int64\<close> where the assignment of such an integer raises an exception that is
  not caught.\<close>

definition row_aborts :: "pylib \<Rightarrow> ('a cadence_row_scheme) \<Rightarrow> bool" where
  "row_aborts lib r =
     (is_not_found (Str (NC_Count r)) \<and> \<not> is_not_found (Str (Previous_Cadence r)) \<and>
      (float_is_inf lib (Previous_Cadence r) \<or>
       (case float_of lib (Previous_Cadence r) of
          Some x \<Rightarrow> \<not> fits_int64 (py_int x) \<and> isl (at_out_of_int64 lib (py_int x))
        | None \<Rightarrow> False)))"

section \<open>The GDN node rule as the specification words it\<close>

text \<open>A child class is a node iff some ARMT row with that child class (a) has program
  AmazonGlobal and an element of its comma-split Source in the core list, or (b) has program
  CrossListing, an element of its comma-split Destination in the cross list, and a Source
  that is not in the excluded-source list.\<close>

definition spec_gdn_node :: "armt_row list \<Rightarrow> string \<Rightarrow> bool" where
  "spec_gdn_node armt k =
     list_ex (\<lambda>r. a_child_class r = k \<and>
        ((a_program r = ''AmazonGlobal'' \<and>
            list_ex (\<lambda>j. strip j \<in> set GDN_Core) (split_on (CHR '','') (a_Source r)))
         \<or> (a_program r = ''CrossListing'' \<and>
            list_ex (\<lambda>k. strip k \<in> set GDN_Cross) (split_on (CHR '','') (a_Destination r)) \<and>
            a_Source r \<notin> set GDN_Excluded_Sources))) armt"

section \<open>Concrete input tables\<close>

text \<open>A CrossListing row from DE to FR: the destination is outside the cross list.\<close>

definition armt_cross_de_fr :: "armt_row list" where
  "armt_cross_de_fr =
     [\<lparr>a_program = ''CrossListing'', a_parent_class = ''Electronics'', a_child_class = ''Cables'',
       a_policy_name = Some ''Pol_A'', a_Source = ''DE'', a_Destination = ''FR'',
       a_parent_score = Num 2\<rparr>]"

text \<open>An AmazonGlobal row with source DE, and two Outflow rows for its child class: one
  resolved on 2024-03-15 (day 19797), one whose resolved date did not parse.\<close>

definition armt_global_de :: "armt_row list" where
  "armt_global_de =
     [\<lparr>a_program = ''AmazonGlobal'', a_parent_class = ''Electronics'', a_child_class = ''Cables'',
       a_policy_name = Some ''Pol_A'', a_Source = ''DE'', a_Destination = ''FR'',
       a_parent_score = Num 2\<rparr>]"

definition outflow_one_unparsed :: "outflow_parsed list" where
  "outflow_one_unparsed =
     [\<lparr>p_child_class = ''Cables'', p_parent_class = ''Electronics'', p_resolved = Some 19797,
       p_resolution = ''DE-FR'', p_quantity = 3, p_vendor_id = 0\<rparr>,
      \<lparr>p_child_class = ''Cables'', p_parent_class = ''Electronics'', p_resolved = None,
       p_resolution = ''DE-FR'', p_quantity = 2, p_vendor_id = 0\<rparr>]"


text \<open>An IAS CrossListing row whose policy name carries the JSR mark.\<close>

definition armt_cross_jsr :: "armt_row list" where
  "armt_cross_jsr =
     [\<lparr>a_program = ''CrossListing'', a_parent_class = ''Electronics'', a_child_class = ''Cables'',
       a_policy_name = Some ''Pol_JSR'', a_Source = ''FR'', a_Destination = ''DE'',
       a_parent_score = Num 2\<rparr>]"

text \<open>An IAS AmazonGlobal row with a negative parent score, and a master file that holds the
  cadence score 45 for its key; no Outflow row.\<close>

definition armt_negative_score :: "armt_row list" where
  "armt_negative_score =
     [\<lparr>a_program = ''AmazonGlobal'', a_parent_class = ''Electronics'', a_child_class = ''Cables'',
       a_policy_name = Some ''Pol_A'', a_Source = ''FR'', a_Destination = ''DE'',
       a_parent_score = Num (- 3)\<rparr>]"

definition master_score_45 :: "ias_master_row list" where
  "master_score_45 =
     [\<lparr>im_Parent_Classes = ''Electronics'', im_Child_Classes = ''Cables'', im_Source = ''FR'',
       im_ARC = ''FR-DE'', im_Cadence_Score = Num 45, im_Due_Date = Str ''2024-03-15'',
       im_NC_Count = Null\<rparr>]"

text \<open>Two GDN nodes, and two enumerations of the node set.\<close>

definition armt_two_nodes :: "armt_row list" where
  "armt_two_nodes =
     [\<lparr>a_program = ''AmazonGlobal'', a_parent_class = ''Electronics'', a_child_class = ''Cables'',
       a_policy_name = Some ''Pol_A'', a_Source = ''DE'', a_Destination = ''FR'',
       a_parent_score = Num 2\<rparr>,
      \<lparr>a_program = ''AmazonGlobal'', a_parent_class = ''Electronics'', a_child_class = ''Adapters'',
       a_policy_name = Some ''Pol_B'', a_Source = ''DE'', a_Destination = ''FR'',
       a_parent_score = Num 3\<rparr>]"

definition first_seen_order :: "string list \<Rightarrow> string list" where
  "first_seen_order xs = rev (remdups (rev xs))"

definition last_seen_order :: "string list \<Rightarrow> string list" where
  "last_seen_order xs = rev (remdups xs)"

text \<open>An enumeration of a set lists each element once.\<close>

definition enumerates :: "(string list \<Rightarrow> string list) \<Rightarrow> bool" where
  "enumerates list_of_set = (\<forall>xs. distinct (list_of_set xs) \<and> set (list_of_set xs) = set xs)"

text \<open>An IAS AmazonGlobal row with one resolved Outflow row and NC 5.\<close>

definition armt_global_fr :: "armt_row list" where
  "armt_global_fr =
     [\<lparr>a_program = ''AmazonGlobal'', a_parent_class = ''Electronics'', a_child_class = ''Cables'',
       a_policy_name = Some ''Pol_A'', a_Source = ''FR'', a_Destination = ''DE'',
       a_parent_score = Num 2\<rparr>]"

definition outflow_fr :: "outflow_parsed list" where
  "outflow_fr =
     [\<lparr>p_child_class = ''Cables'', p_parent_class = ''Electronics'', p_resolved = Some 19797,
       p_resolution = ''FR-DE'', p_quantity = 5, p_vendor_id = 0\<rparr>]"

section \<open>The tiers, and the final row of a node\<close>

definition TIERS :: "int set" where
  "TIERS = {30, 60, 90, 180, 365}"

text \<open>Each stage after \<open>create_nodes\<close> works row by row, so a row of the final table is a
  function of its node key and the input tables: the composition of the row functions of
  the stages, in the order in which \<open>process\<close> calls them.  The run has a table when no row
  raises; \<open>first_error\<close> gives the rows, or the error of the first row that has one.\<close>

fun first_error :: "('e + 'r) list \<Rightarrow> 'e + 'r list" where
  "first_error [] = Inr []"
| "first_error (x # xs) =
     (case x of
        Inl e \<Rightarrow> Inl e
      | Inr r \<Rightarrow> (case first_error xs of Inl e \<Rightarrow> Inl e | Inr rs \<Rightarrow> Inr (r # rs)))"

definition staged_row :: "pylib \<Rightarrow> ('a cadence_row_scheme) \<Rightarrow> error + ('a cadence_row_scheme)" where
  "staged_row lib r0 =
     (let r1 = update_row lib r0 in fallback lib (r1\<lparr>Due_Date := due_date_of lib r1\<rparr>))"

definition gdn_final_row ::
  "pylib \<Rightarrow> armt_row list \<Rightarrow> outflow_parsed list \<Rightarrow> gdn_master_row list \<Rightarrow> bool \<Rightarrow> string \<Rightarrow>
   error + cadence_row" where
  "gdn_final_row lib armt parsed master has_nc_count cc =
     (case gdn_process_outflow lib parsed of
        (outflow, outflow1) \<Rightarrow>
          map_sum id (finalize_row lib)
            (staged_row lib
              (gdn_master_row_lookups lib master has_nc_count
                 (gdn_cadence_row lib armt outflow outflow1 cc))))"

definition ias_merged_row ::
  "pylib \<Rightarrow> armt_row list \<Rightarrow> outflow_parsed list \<Rightarrow> ias_master_row list \<Rightarrow> bool \<Rightarrow> string \<Rightarrow> ias_row" where
  "ias_merged_row lib armt parsed master has_nc_count cc =
     (case ias_process_outflow lib parsed of
        (outflow, outflow1, outflow2) \<Rightarrow>
          merge_row (ias_master_row_lookups lib master has_nc_count
            (ias_cadence_row lib armt outflow outflow1 outflow2 cc)))"

definition ias_final_row ::
  "pylib \<Rightarrow> armt_row list \<Rightarrow> outflow_parsed list \<Rightarrow> ias_master_row list \<Rightarrow> bool \<Rightarrow> string \<Rightarrow>
   error + cadence_row" where
  "ias_final_row lib armt parsed master has_nc_count cc =
     map_sum id (\<lambda>r. finalize_row lib (cadence_row.truncate r))
       (staged_row lib (ias_merged_row lib armt parsed master has_nc_count cc))"

section \<open>The rows the model computes on the concrete tables\<close>

definition row_gdn_unparsed :: cadence_row where
  "row_gdn_unparsed = \<lparr>node_key = ''Cables'', Policies = ''Pol_A'', risk_score = 2,
     Resolved_Date = ''not Found!'', NC_Count = ''5.0'', Cadence_Score = 60, JSR = ''No'',
     Previous_Cadence = ''not Found!'', Previous_Due_Date = ''not Found!'',
     Previous_NC = ''not Found!'', Due_Date = ''not Found!''\<rparr>"

definition row_ias_jsr :: cadence_row where
  "row_ias_jsr = \<lparr>node_key = ''Electronics,Cables,FR-DE'', Policies = ''Pol_JSR'', risk_score = 1,
     Resolved_Date = ''not Found!'', NC_Count = ''not Found!'', Cadence_Score = 30, JSR = ''No'',
     Previous_Cadence = ''not Found!'', Previous_Due_Date = ''not Found!'',
     Previous_NC = ''not Found!'', Due_Date = ''not Found!''\<rparr>"

definition row_score_45 :: cadence_row where
  "row_score_45 = \<lparr>node_key = ''Electronics,Cables,FR'', Policies = ''Pol_A'', risk_score = - 3,
     Resolved_Date = ''not Found!'', NC_Count = ''not Found!'', Cadence_Score = 45, JSR = ''No'',
     Previous_Cadence = ''45'', Previous_Due_Date = ''2024-03-15'',
     Previous_NC = ''not Found!'', Due_Date = ''2024-03-15''\<rparr>"

definition row_global_fr :: cadence_row where
  "row_global_fr = \<lparr>node_key = ''Electronics,Cables,FR'', Policies = ''Pol_A'', risk_score = 2,
     Resolved_Date = ''2024-03-15'', NC_Count = ''5.0'', Cadence_Score = 60, JSR = ''No'',
     Previous_Cadence = ''not Found!'', Previous_Due_Date = ''not Found!'',
     Previous_NC = ''not Found!'', Due_Date = ''2024-05-14''\<rparr>"

definition row_cables :: cadence_row where
  "row_cables = \<lparr>node_key = ''Cables'', Policies = ''Pol_A'', risk_score = 2,
     Resolved_Date = ''not Found!'', NC_Count = ''not Found!'', Cadence_Score = 60, JSR = ''No'',
     Previous_Cadence = ''not Found!'', Previous_Due_Date = ''not Found!'',
     Previous_NC = ''not Found!'', Due_Date = ''not Found!''\<rparr>"

definition row_adapters :: cadence_row where
  "row_adapters = \<lparr>node_key = ''Adapters'', Policies = ''Pol_B'', risk_score = 3,
     Resolved_Date = ''not Found!'', NC_Count = ''not Found!'', Cadence_Score = 90, JSR = ''No'',
     Previous_Cadence = ''not Found!'', Previous_Due_Date = ''not Found!'',
     Previous_NC = ''not Found!'', Due_Date = ''not Found!''\<rparr>"

text \<open>The IAS rows after \<open>merge_columns\<close>, with their secondary columns.\<close>

definition merged_jsr :: ias_row where
  "merged_jsr = \<lparr>node_key = ''Electronics,Cables,FR-DE'', Policies = ''Pol_JSR'',
    risk_score = 1, Resolved_Date = ''not Found!'',
    NC_Count = ''not Found!'', Cadence_Score = 30, JSR = ''No'',
    Previous_Cadence = ''not Found!'', Previous_Due_Date = ''not Found!'',
    Previous_NC = ''not Found!'', Due_Date = ''not Found!'',
    Policies2 = ''Pol_JSR'', risk_score2 = 2,
    Resolved_Date2 = ''not Found!'', NC_Count2 = ''not Found!'',
    Cadence_Score2 = 60, Previous_Cadence2 = ''not Found!'',
    Previous_Due_Date2 = ''not Found!''\<rparr>"

definition merged_score_45 :: ias_row where
  "merged_score_45 = \<lparr>node_key = ''Electronics,Cables,FR'', Policies = ''Pol_A'',
    risk_score = - 3, Resolved_Date = ''not Found!'',
    NC_Count = ''not Found!'', Cadence_Score = 30, JSR = ''No'',
    Previous_Cadence = ''45'', Previous_Due_Date = ''2024-03-15'',
    Previous_NC = ''not Found!'', Due_Date = ''not Found!'',
    Policies2 = ''not Found!'', risk_score2 = 1,
    Resolved_Date2 = ''not Found!'', NC_Count2 = ''not Found!'',
    Cadence_Score2 = 30, Previous_Cadence2 = ''not Found!'',
    Previous_Due_Date2 = ''not Found!''\<rparr>"

definition merged_global_fr :: ias_row where
  "merged_global_fr = \<lparr>node_key = ''Electronics,Cables,FR'', Policies = ''Pol_A'',
    risk_score = 2, Resolved_Date = ''2024-03-15'', NC_Count = ''5.0'',
    Cadence_Score = 60, JSR = ''No'', Previous_Cadence = ''not Found!'',
    Previous_Due_Date = ''not Found!'', Previous_NC = ''not Found!'',
    Due_Date = ''not Found!'', Policies2 = ''not Found!'', risk_score2 = 1,
    Resolved_Date2 = ''not Found!'', NC_Count2 = ''not Found!'',
    Cadence_Score2 = 30, Previous_Cadence2 = ''not Found!'',
    Previous_Due_Date2 = ''not Found!''\<rparr>"

section \<open>Evaluation and helper lemmas\<close>

lemma convert_Str_Some:
  "convert lib (Str s) = Some x \<longleftrightarrow> \<not> is_not_found (Str s) \<and> float_of lib s = Some x"
  by (simp add: convert_def)

lemma convert_not_found: "is_not_found c \<Longrightarrow> convert lib c = None"
  by (simp add: convert_def)

lemmas score_defs = new_score_of_def notna_def nan_ge_def nan_lt_def nan_eq_def np_where_def isin_def

lemma update_nth:
  "i < length Cadence \<Longrightarrow> update_cadence_score lib Cadence ! i = update_row lib (Cadence ! i)"
  by (simp add: update_cadence_score_def)

section \<open>The score transition\<close>

text \<open>
  Claim C1.  For a row whose Previous Cadence parses to a tier \<open>T\<close> and whose NC Count parses
  to a number \<open>nc\<close>, the score that \<open>update_cadence_score\<close> writes follows the rule table with
  threshold \<open>K\<close> (10 for tiers 30, 60, 90 and 15 for 180, 365): at \<open>nc \<ge> K\<close> the tier below;
  at \<open>nc < K\<close> with a known previous NC \<open>\<ge> K\<close> the tier \<open>T\<close> itself; at \<open>nc < K\<close> with the
  previous NC absent or below \<open>K\<close> the tier above, where tier 90 gives 90 at risk 1, 2, 3 and
  180 at risk 4, 5, and tier 180 gives 180 at risk 4 and 365 at any other risk.
\<close>

theorem C1_score_transition_nc_known:
  assumes "i < length Cadence"
    and "convert lib (Str (Previous_Cadence (Cadence ! i))) = Some T"
    and "T \<in> {30, 60, 90, 180, 365}"
    and "convert lib (Str (NC_Count (Cadence ! i))) = Some nc"
    and "prev = convert lib (Str (Previous_NC (Cadence ! i)))"
    and "risk = risk_score (Cadence ! i)"
    and "S = Cadence_Score (update_cadence_score lib Cadence ! i)"
    and "K = step_down_threshold T"
  shows "(K \<le> nc \<longrightarrow> S = tier_below T)
       \<and> (nc < K \<and> (\<exists>p. prev = Some p \<and> K \<le> p) \<longrightarrow> real_of_int S = T)
       \<and> (nc < K \<and> (prev = None \<or> (\<exists>p. prev = Some p \<and> p < K)) \<longrightarrow>
            (T = 30 \<longrightarrow> S = 60) \<and> (T = 60 \<longrightarrow> S = 90) \<and> (T = 365 \<longrightarrow> S = 365)
          \<and> (T = 90 \<and> risk \<in> {1, 2, 3} \<longrightarrow> S = 90) \<and> (T = 90 \<and> risk \<in> {4, 5} \<longrightarrow> S = 180)
          \<and> (T = 180 \<and> risk = 4 \<longrightarrow> S = 180) \<and> (T = 180 \<and> risk \<noteq> 4 \<longrightarrow> S = 365))"
proof -
  have S: "S = new_score_of (Some nc) prev (Some T) risk (Cadence_Score (Cadence ! i))"
    using assms by (simp add: update_nth update_row_def)
  from assms(3) consider "T = 30" | "T = 60" | "T = 90" | "T = 180" | "T = 365" by auto
  then show ?thesis
  proof cases
    case 1 then show ?thesis unfolding S assms(8)
      by (auto simp: score_defs step_down_threshold_def tier_below_def split: option.splits)
  next
    case 2 then show ?thesis unfolding S assms(8)
      by (auto simp: score_defs step_down_threshold_def tier_below_def split: option.splits)
  next
    case 3 then show ?thesis unfolding S assms(8)
      by (auto simp: score_defs step_down_threshold_def tier_below_def split: option.splits)
  next
    case 4 then show ?thesis unfolding S assms(8)
      by (auto simp: score_defs step_down_threshold_def tier_below_def split: option.splits)
  next
    case 5 then show ?thesis unfolding S assms(8)
      by (auto simp: score_defs step_down_threshold_def tier_below_def split: option.splits)
  qed
qed

text \<open>The specification's example: previous tier 90, risk 5, current and previous NC 0.\<close>

lemma nf_90: "\<not> is_not_found (Str ''90'')" by code_simp
lemma nf_00: "\<not> is_not_found (Str ''0.0'')" by code_simp
lemma fl_90: "decimal_float ''90'' = Some 90" by code_simp
lemma fl_00: "decimal_float ''0.0'' = Some 0" by code_simp

theorem C1_witness:
  "Cadence_Score (update_cadence_score lib0 [row_promote] ! 0) = 180"
proof -
  have h1: "(0::nat) < length [row_promote]" by simp
  have h2: "convert lib0 (Str (Previous_Cadence ([row_promote] ! 0))) = Some 90"
    by (simp add: convert_def row_promote_def nf_90 fl_90 lib0_def)
  have h3: "(90::real) \<in> {30, 60, 90, 180, 365}" by simp
  have h4: "convert lib0 (Str (NC_Count ([row_promote] ! 0))) = Some 0"
    by (simp add: convert_def row_promote_def nf_00 fl_00 lib0_def)
  have h5: "convert lib0 (Str (Previous_NC ([row_promote] ! 0))) = Some 0"
    by (simp add: convert_def row_promote_def nf_00 fl_00 lib0_def)
  from C1_score_transition_nc_known [OF h1 h2 h3 h4 h5 [symmetric] refl refl refl]
  show ?thesis by (simp add: step_down_threshold_def row_promote_def)
qed

section \<open>The two loops of \<open>calculate_due_dates\<close>\<close>

text \<open>The run has a table exactly when no row raises; the rows are then the rows of the
  fallback, one by one.\<close>

lemma first_error_map_Inr: "first_error (map Inr rs) = Inr rs"
  by (induction rs) simp_all

lemma first_error_Inr_D: "first_error xs = Inr rs \<Longrightarrow> xs = map Inr rs"
  by (induction xs arbitrary: rs) (auto split: sum.splits)

lemma first_error_Inr_iff: "first_error xs = Inr rs \<longleftrightarrow> xs = map Inr rs"
  using first_error_map_Inr first_error_Inr_D by metis

lemma first_error_isl: "isl (first_error xs) \<longleftrightarrow> (\<exists>x \<in> set xs. isl x)"
  by (induction xs) (auto split: sum.splits)

lemma first_error_map_sum:
  "first_error (map (map_sum id f) xs) = map_sum id (map f) (first_error xs)"
  by (induction xs) (auto split: sum.splits)

lemma sum_case_map_sum: "(case s of Inl e \<Rightarrow> Inl e | Inr t \<Rightarrow> Inr (g t)) = map_sum id g s"
  by (simp split: sum.splits)

lemma fallback_loop_first_error: "fallback_loop lib rs = first_error (map (fallback lib) rs)"
  by (induction rs) (simp_all split: sum.splits)

lemma calc_first_error:
  "calculate_due_dates lib Cadence =
     first_error (map (\<lambda>r. fallback lib (r\<lparr>Due_Date := due_date_of lib r\<rparr>)) Cadence)"
  by (simp add: calculate_due_dates_def fallback_loop_first_error comp_def)

lemma calc_nth:
  assumes "calculate_due_dates lib Cadence = Inr Due" and "i < length Cadence"
  shows "fallback lib ((Cadence ! i)\<lparr>Due_Date := due_date_of lib (Cadence ! i)\<rparr>) = Inr (Due ! i)"
proof -
  from assms(1) have "map (\<lambda>r. fallback lib (r\<lparr>Due_Date := due_date_of lib r\<rparr>)) Cadence = map Inr Due"
    by (simp add: calc_first_error first_error_Inr_iff)
  from arg_cong [OF this, of "\<lambda>xs. xs ! i"] arg_cong [OF this, of length] assms(2)
  show ?thesis by simp
qed

lemma calc_length: "calculate_due_dates lib Cadence = Inr Due \<Longrightarrow> length Due = length Cadence"
  by (auto simp: calc_first_error first_error_Inr_iff dest: arg_cong [of _ _ length])


lemma row_aborts_Due_Date [simp]: "row_aborts lib (r\<lparr>Due_Date := d\<rparr>) = row_aborts lib r"
  by (simp add: row_aborts_def)


lemma fallback_known_nc: "\<not> is_not_found (Str (NC_Count r)) \<Longrightarrow> fallback lib r = Inr r"
  by (simp add: fallback_def)

lemma fallback_Due_Date:
  "fallback lib r = Inr r' \<Longrightarrow>
   Due_Date r' = (if is_not_found (Str (NC_Count r)) \<and> \<not> is_not_found (Str (Previous_Due_Date r))
                  then Previous_Due_Date r else Due_Date r)"
  by (auto simp: fallback_def Let_def split: if_splits option.splits sum.splits)

lemma fallback_score_kept:
  "fallback lib r = Inr r' \<Longrightarrow>
   \<not> is_not_found (Str (NC_Count r)) \<or> is_not_found (Str (Previous_Cadence r))
     \<or> float_of lib (Previous_Cadence r) = None \<Longrightarrow>
   Cadence_Score r' = Cadence_Score r"
  by (auto simp: fallback_def Let_def split: if_splits option.splits sum.splits)

lemma fallback_score_carried:
  "fallback lib r = Inr r' \<Longrightarrow> is_not_found (Str (NC_Count r)) \<Longrightarrow>
   \<not> is_not_found (Str (Previous_Cadence r)) \<Longrightarrow> float_of lib (Previous_Cadence r) = Some x \<Longrightarrow>
   fits_int64 (py_int x) \<Longrightarrow> Cadence_Score r' = py_int x"
  by (auto simp: fallback_def Let_def split: if_splits option.splits sum.splits)

lemma fallback_fields:
  assumes "fallback lib r = Inr r'"
  shows "NC_Count r' = NC_Count r" "Previous_Cadence r' = Previous_Cadence r"
    "Resolved_Date r' = Resolved_Date r" "risk_score r' = risk_score r"
    "Policies r' = Policies r" "JSR r' = JSR r" "Previous_Due_Date r' = Previous_Due_Date r"
  using assms by (auto simp: fallback_def Let_def split: if_splits option.splits sum.splits)

lemma finalize_nth:
  "i < length Cadence \<Longrightarrow> finalize_cadence lib Cadence ! i = finalize_row lib (Cadence ! i)"
  by (simp add: finalize_cadence_def)


lemma py_int_of_int [simp]: "py_int (of_int n) = n"
  by (simp add: py_int_def)

lemma due_days_spec: "due_days nc cad = spec_offset nc cad"
  by (simp add: due_days_def spec_offset_def)

section \<open>Rows without a current NC count\<close>

text \<open>Evaluation of the helpers on the cells of the example rows.\<close>

lemma nf_sentinel: "is_not_found (Str ''not Found!'')" by code_simp
lemma nf_30: "\<not> is_not_found (Str ''30'')" by code_simp
lemma nf_60: "\<not> is_not_found (Str ''60'')" by code_simp
lemma nf_50: "\<not> is_not_found (Str ''5.0'')" by code_simp
lemma nf_date1: "\<not> is_not_found (Str ''2024-03-15'')" by code_simp
lemma fl_30: "decimal_float ''30'' = Some 30" by code_simp
lemma fl_60: "decimal_float ''60'' = Some 60" by code_simp
lemma fl_50: "decimal_float ''5.0'' = Some 5" by code_simp

lemmas row_evals = nf_sentinel nf_30 nf_60 nf_90 nf_00 nf_50 nf_date1 fl_30 fl_60 fl_90 fl_00 fl_50

lemma run_calc_absent_nc:
  "calculate_due_dates lib0 (update_cadence_score lib0 [row_absent_nc]) =
     Inr [row_absent_nc\<lparr>Due_Date := ''2024-03-15''\<rparr>]"
  by code_simp

text \<open>
  Claim C2, as the code has it.  For a row whose Previous Cadence parses to a tier \<open>T\<close> and
  whose NC Count is the not-found sentinel, \<open>update_cadence_score\<close> writes \<open>T\<close> when the
  previous NC is known and at least \<open>K\<close>, and leaves the score as it was (the score derived
  from the risk) when the previous NC is absent or below \<open>K\<close>: no rule promotes without a
  current NC.  The fallback of \<open>calculate_due_dates\<close> then sets the score to \<open>T\<close> in every
  case, and \<open>finalize_cadence\<close> keeps it: \<open>T\<close> is the score of the row in the final table
  of a run that has one.
\<close>

theorem C2_transition_nc_absent:
  assumes "i < length Cadence"
    and "is_not_found (Str (NC_Count (Cadence ! i)))"
    and "convert lib (Str (Previous_Cadence (Cadence ! i))) = Some T"
    and "T \<in> {30, 60, 90, 180, 365}"
    and "prev = convert lib (Str (Previous_NC (Cadence ! i)))"
    and "K = step_down_threshold T"
    and "S_upd = Cadence_Score (update_cadence_score lib Cadence ! i)"
    and "calculate_due_dates lib (update_cadence_score lib Cadence) = Inr Due"
    and "S_fin = Cadence_Score (finalize_cadence lib Due ! i)"
  shows "((\<exists>p. prev = Some p \<and> K \<le> p) \<longrightarrow> real_of_int S_upd = T)
       \<and> (prev = None \<or> (\<exists>p. prev = Some p \<and> p < K) \<longrightarrow> S_upd = Cadence_Score (Cadence ! i))
       \<and> real_of_int S_fin = T"
proof -
  have nc: "convert lib (Str (NC_Count (Cadence ! i))) = None"
    using assms(2) by (rule convert_not_found)
  have S: "S_upd = new_score_of None prev (Some T) (risk_score (Cadence ! i)) (Cadence_Score (Cadence ! i))"
    using assms nc by (simp add: update_nth update_row_def)
  have pc: "\<not> is_not_found (Str (Previous_Cadence (Cadence ! i)))"
       "float_of lib (Previous_Cadence (Cadence ! i)) = Some T"
    using assms(3) by (simp_all add: convert_Str_Some)
  have len: "i < length (update_cadence_score lib Cadence)" "i < length Due"
    using assms(1) calc_length [OF assms(8)] by (simp_all add: update_cadence_score_def)
  have fits: "fits_int64 (py_int T)"
    using assms(4) by (auto simp: fits_int64_def py_int_def)
  have "Cadence_Score (Due ! i) = py_int T"
    by (rule fallback_score_carried [OF calc_nth [OF assms(8) len(1)]])
       (use assms(1,2) pc fits in \<open>simp_all add: update_nth update_row_def\<close>)
  then have "S_fin = py_int T"
    using len(2) unfolding assms(9) by (simp add: finalize_nth finalize_row_def)
  moreover from assms(4) have "real_of_int (py_int T) = T"
    by (auto simp: py_int_def)
  ultimately have fin: "real_of_int S_fin = T" by simp
  from assms(4) consider "T = 30" | "T = 60" | "T = 90" | "T = 180" | "T = 365" by auto
  then have "((\<exists>p. prev = Some p \<and> K \<le> p) \<longrightarrow> real_of_int S_upd = T)
       \<and> (prev = None \<or> (\<exists>p. prev = Some p \<and> p < K) \<longrightarrow> S_upd = Cadence_Score (Cadence ! i))"
    unfolding S assms(6)
    by cases (auto simp: score_defs step_down_threshold_def split: option.splits)
  with fin show ?thesis by simp
qed

text \<open>
  The claim as stated asks for the tier above \<open>T\<close> when the previous NC is known and below
  \<open>K\<close>.  At previous tier 30, previous NC 5 and risk 1 that would be 60; the code gives 30,
  after the transition stage and in the final table.
\<close>

theorem C2_counterexample:
  "is_not_found (Str (NC_Count row_absent_nc))
   \<and> convert lib0 (Str (Previous_Cadence row_absent_nc)) = Some 30
   \<and> convert lib0 (Str (Previous_NC row_absent_nc)) = Some 5
   \<and> (5::real) < step_down_threshold 30
   \<and> Cadence_Score (update_cadence_score lib0 [row_absent_nc] ! 0) = 30
   \<and> Cadence_Score (update_cadence_score lib0 [row_absent_nc] ! 0) \<noteq> 60
   \<and> (\<exists>Due. calculate_due_dates lib0 (update_cadence_score lib0 [row_absent_nc]) = Inr Due
          \<and> Cadence_Score (finalize_cadence lib0 Due ! 0) = 30
          \<and> Cadence_Score (finalize_cadence lib0 Due ! 0) \<noteq> 60)"
  by (simp add: run_calc_absent_nc)
     (simp add: row_absent_nc_def convert_def row_evals lib0_def step_down_threshold_def
      update_cadence_score_def update_row_def score_defs finalize_cadence_def finalize_row_def)

theorem C2_witness:
  "Cadence_Score (update_cadence_score lib0 [row_absent_nc] ! 0) = 30
   \<and> calculate_due_dates lib0 (update_cadence_score lib0 [row_absent_nc]) =
       Inr [row_absent_nc\<lparr>Due_Date := ''2024-03-15''\<rparr>]
   \<and> Cadence_Score (finalize_cadence lib0 [row_absent_nc\<lparr>Due_Date := ''2024-03-15''\<rparr>] ! 0) = 30"
proof -
  have h1: "(0::nat) < length [row_absent_nc]" by simp
  have h2: "is_not_found (Str (NC_Count ([row_absent_nc] ! 0)))"
    by (simp add: row_absent_nc_def row_evals)
  have h3: "convert lib0 (Str (Previous_Cadence ([row_absent_nc] ! 0))) = Some 30"
    by (simp add: convert_def row_absent_nc_def row_evals lib0_def)
  have h4: "(30::real) \<in> {30, 60, 90, 180, 365}" by simp
  have h5: "convert lib0 (Str (Previous_NC ([row_absent_nc] ! 0))) = Some 5"
    by (simp add: convert_def row_absent_nc_def row_evals lib0_def)
  note th = C2_transition_nc_absent [OF h1 h2 h3 h4 h5 [symmetric] refl refl run_calc_absent_nc refl]
  from th have a: "Cadence_Score (update_cadence_score lib0 [row_absent_nc] ! 0) = Cadence_Score row_absent_nc"
    and b: "Cadence_Score (finalize_cadence lib0 [row_absent_nc\<lparr>Due_Date := ''2024-03-15''\<rparr>] ! 0) = 30"
    by (simp_all add: step_down_threshold_def)
  have c: "Cadence_Score row_absent_nc = 30" by (simp add: row_absent_nc_def)
  from a b c run_calc_absent_nc show ?thesis by simp
qed

section \<open>Due dates\<close>

lemma parse_date1: "iso_parse ''2024-03-15'' = Some 19797" by code_simp
lemma parse_date_late: "iso_parse ''2262-01-01'' = Some 106651" by code_simp
lemma format_date_late: "iso_format 107016 = ''2263-01-01''" by code_simp
lemma nf_date_late: "\<not> is_not_found (Str ''2262-01-01'')" by code_simp

lemma run_calc_promote:
  "calculate_due_dates lib0 [row_promote] = Inr [row_promote\<lparr>Due_Date := ''2025-03-15''\<rparr>]"
  by code_simp

lemma run_calc_late: "calculate_due_dates lib0 [row_late] = Inr [row_late]"
  by code_simp

text \<open>
  Claim C3, with the range of the timestamps.  Let \<open>calculate_due_dates\<close> return a table.
  For a row whose NC Count parses to a number \<open>nc\<close> and whose Resolved Date is not the
  sentinel, the Due Date it writes is the resolved date plus the offset \<open>k\<close> that the
  specification's table gives for \<open>nc\<close> and the Cadence Score, provided that the resolved date
  parses to a day \<open>d\<close> and \<open>d + k\<close> is a day a \<open>pd.Timestamp\<close> can hold (at most 2262-04-11);
  when the resolved date does not parse, or \<open>d + k\<close> is outside that range, it is the
  sentinel.  It is the sentinel when the score is none of 30, 60, 90, 180, 365, and when the
  NC Count parses and the Resolved Date is absent.  When the NC Count does not parse, the
  first loop writes the sentinel, and the fallback replaces it by Previous Due Date if the NC
  Count is the sentinel and Previous Due Date is not.
\<close>

theorem C3_due_dates_written:
  assumes "i < length Cadence" and "r = Cadence ! i"
    and "calculate_due_dates lib Cadence = Inr Due"
    and "due = Due_Date (Due ! i)"
    and "nc_numeric = convert lib (Str (NC_Count r))"
    and "resolved = Resolved_Date r"
  shows "(\<forall>nc k d. nc_numeric = Some nc \<and> \<not> is_not_found (Str resolved)
            \<and> spec_offset nc (Cadence_Score r) = Some k \<and> to_datetime lib resolved = Some d
            \<and> - TS_MAX_DAY \<le> d + k \<and> d + k \<le> TS_MAX_DAY \<longrightarrow> due = strftime lib (d + k))
       \<and> (\<forall>nc k. nc_numeric = Some nc \<and> \<not> is_not_found (Str resolved)
            \<and> spec_offset nc (Cadence_Score r) = Some k
            \<and> (to_datetime lib resolved = None
               \<or> (\<exists>d. to_datetime lib resolved = Some d \<and> (d + k < - TS_MAX_DAY \<or> TS_MAX_DAY < d + k)))
            \<longrightarrow> due = NOT_FOUND)
       \<and> (\<forall>nc. nc_numeric = Some nc \<and> Cadence_Score r \<notin> {30, 60, 90, 180, 365} \<longrightarrow> due = NOT_FOUND)
       \<and> (\<forall>nc. nc_numeric = Some nc \<and> is_not_found (Str resolved) \<longrightarrow> due = NOT_FOUND)
       \<and> (nc_numeric = None \<longrightarrow>
            due = (if is_not_found (Str (NC_Count r)) \<and> \<not> is_not_found (Str (Previous_Due_Date r))
                   then Previous_Due_Date r else NOT_FOUND))"
proof -
  have fb: "fallback lib (r\<lparr>Due_Date := due_date_of lib r\<rparr>) = Inr (Due ! i)"
    using calc_nth [OF assms(3,1)] by (simp add: assms(2))
  have due: "due = (if is_not_found (Str (NC_Count r)) \<and> \<not> is_not_found (Str (Previous_Due_Date r))
                    then Previous_Due_Date r else due_date_of lib r)"
    using fallback_Due_Date [OF fb] by (simp add: assms(4))
  have known: "due = (if is_not_found (Str resolved) then NOT_FOUND
                      else case spec_offset nc (Cadence_Score r) of
                             Some k \<Rightarrow> add_days_to_date lib (Str resolved) k
                           | None \<Rightarrow> NOT_FOUND)"
    if "nc_numeric = Some nc" for nc
  proof -
    from that have "\<not> is_not_found (Str (NC_Count r))"
      by (simp add: assms(5) convert_Str_Some)
    with that show ?thesis
      unfolding due
      by (simp add: due_date_of_def due_days_spec assms(5,6) [symmetric] cong: option.case_cong)
  qed
  have a: "due = strftime lib (d + k)"
    if "nc_numeric = Some nc" "\<not> is_not_found (Str resolved)"
      "spec_offset nc (Cadence_Score r) = Some k" "to_datetime lib resolved = Some d"
      "- TS_MAX_DAY \<le> d + k" "d + k \<le> TS_MAX_DAY" for nc k d
    using known [OF that(1)] that by (simp add: add_days_to_date_def timestamp_plus_def)
  have b: "due = NOT_FOUND"
    if "nc_numeric = Some nc" "\<not> is_not_found (Str resolved)"
      "spec_offset nc (Cadence_Score r) = Some k"
      "to_datetime lib resolved = None
       \<or> (\<exists>d. to_datetime lib resolved = Some d \<and> (d + k < - TS_MAX_DAY \<or> TS_MAX_DAY < d + k))" for nc k
    using known [OF that(1)] that by (auto simp: add_days_to_date_def timestamp_plus_def)
  have c: "due = NOT_FOUND"
    if "nc_numeric = Some nc" "Cadence_Score r \<notin> {30, 60, 90, 180, 365}" for nc
  proof -
    from that(2) have "spec_offset nc (Cadence_Score r) = None"
      by (simp add: spec_offset_def)
    with known [OF that(1)] show ?thesis by simp
  qed
  have d: "due = NOT_FOUND" if "nc_numeric = Some nc" "is_not_found (Str resolved)" for nc
    using known [OF that(1)] that(2) by simp
  have e: "due = (if is_not_found (Str (NC_Count r)) \<and> \<not> is_not_found (Str (Previous_Due_Date r))
                  then Previous_Due_Date r else NOT_FOUND)"
    if "nc_numeric = None"
    using that unfolding due by (simp add: due_date_of_def assms(5) [symmetric])
  show ?thesis
  proof (intro conjI allI impI)
    fix nc k d
    assume "nc_numeric = Some nc \<and> \<not> is_not_found (Str resolved)
            \<and> spec_offset nc (Cadence_Score r) = Some k \<and> to_datetime lib resolved = Some d
            \<and> - TS_MAX_DAY \<le> d + k \<and> d + k \<le> TS_MAX_DAY"
    then show "due = strftime lib (d + k)"
      by (elim conjE) (rule a)
  next
    fix nc k
    assume "nc_numeric = Some nc \<and> \<not> is_not_found (Str resolved)
            \<and> spec_offset nc (Cadence_Score r) = Some k
            \<and> (to_datetime lib resolved = None
               \<or> (\<exists>d. to_datetime lib resolved = Some d \<and> (d + k < - TS_MAX_DAY \<or> TS_MAX_DAY < d + k)))"
    then show "due = NOT_FOUND"
      by (elim conjE) (rule b)
  next
    fix nc
    assume "nc_numeric = Some nc \<and> Cadence_Score r \<notin> {30, 60, 90, 180, 365}"
    then show "due = NOT_FOUND"
      by (elim conjE) (rule c)
  next
    fix nc
    assume "nc_numeric = Some nc \<and> is_not_found (Str resolved)"
    then show "due = NOT_FOUND"
      by (elim conjE) (rule d)
  next
    assume "nc_numeric = None"
    then show "due = (if is_not_found (Str (NC_Count r)) \<and> \<not> is_not_found (Str (Previous_Due_Date r))
                      then Previous_Due_Date r else NOT_FOUND)"
      by (rule e)
  qed
qed

text \<open>
  The claim as stated has no range condition.  A row resolved on 2262-01-01 with NC 0 and
  score 365 has the offset 365, and its resolved date parses; the claim asks for the due date
  2263-01-01, and the code writes the sentinel, since \<open>parsed + pd.Timedelta(days=365)\<close>
  raises and \<open>add_days_to_date\<close> catches it.
\<close>

theorem C3_counterexample:
  "convert lib0 (Str (NC_Count row_late)) = Some 0
   \<and> \<not> is_not_found (Str (Resolved_Date row_late))
   \<and> spec_offset 0 (Cadence_Score row_late) = Some 365
   \<and> to_datetime lib0 (Resolved_Date row_late) = Some 106651
   \<and> strftime lib0 (106651 + 365) = ''2263-01-01''
   \<and> calculate_due_dates lib0 [row_late] = Inr [row_late]
   \<and> Due_Date row_late = ''not Found!''"
  by (simp add: run_calc_late)
     (simp add: row_late_def convert_def nf_date_late row_evals lib0_def spec_offset_def
       parse_date_late format_date_late)

text \<open>The row of the specification's example for C1: resolved on 2024-03-15 (day 19797), NC 0,
  score 365; the due date is the format of day \<open>19797 + 365\<close>.\<close>

theorem C3_witness:
  "calculate_due_dates lib0 [row_promote] = Inr [row_promote\<lparr>Due_Date := ''2025-03-15''\<rparr>]
   \<and> to_datetime lib0 (Resolved_Date row_promote) = Some 19797
   \<and> strftime lib0 (19797 + 365) = ''2025-03-15''"
proof -
  have h1: "(0::nat) < length [row_promote]" by simp
  have nc: "convert lib0 (Str (NC_Count ([row_promote] ! 0))) = Some 0"
    by (simp add: convert_def row_promote_def row_evals lib0_def)
  have rd: "\<not> is_not_found (Str (Resolved_Date ([row_promote] ! 0)))"
    by (simp add: row_promote_def row_evals)
  have off: "spec_offset 0 (Cadence_Score ([row_promote] ! 0)) = Some 365"
    by (simp add: spec_offset_def row_promote_def)
  have dt: "to_datetime lib0 (Resolved_Date ([row_promote] ! 0)) = Some 19797"
    by (simp add: row_promote_def lib0_def parse_date1)
  have rng: "- TS_MAX_DAY \<le> (19797::int) + 365" "(19797::int) + 365 \<le> TS_MAX_DAY"
    by (simp_all add: TS_MAX_DAY_def)
  note th = C3_due_dates_written [OF h1 refl run_calc_promote refl refl refl, THEN conjunct1,
      rule_format, of 0 365 19797]
  have "Due_Date ([row_promote\<lparr>Due_Date := ''2025-03-15''\<rparr>] ! 0) = strftime lib0 (19797 + 365)"
    by (rule th) (intro conjI nc rd off dt rng)
  then have "strftime lib0 (19797 + 365) = ''2025-03-15''" by simp
  with dt run_calc_promote show ?thesis by simp
qed

section \<open>The fallback to the previous period\<close>





lemma no_abort_carry: "\<not> row_aborts lib0 row_carry"
  by code_simp




section \<open>The stages as row functions\<close>

lemma first_error_map_cong:
  "(\<And>x. x \<in> set xs \<Longrightarrow> f x = g x) \<Longrightarrow> first_error (map f xs) = first_error (map g xs)"
  by (simp cong: map_cong)

lemma staged_table:
  "calculate_due_dates lib (update_cadence_score lib Cadence) = first_error (map (staged_row lib) Cadence)"
  by (simp add: calc_first_error update_cadence_score_def comp_def)
     (rule first_error_map_cong, simp add: staged_row_def Let_def)

lemma gdn_process_rows:
  "gdn_process lib list_of_set armt parsed master has_nc_count =
     (if gdn_create_nodes list_of_set armt = [] then Inl NoNodes
      else first_error (map (gdn_final_row lib armt parsed master has_nc_count)
                          (gdn_create_nodes list_of_set armt)))"
  by (auto simp: gdn_process_def gdn_final_row_def staged_table gdn_create_cadence_def
      gdn_apply_master_lookups_def finalize_cadence_def sum_case_map_sum
      first_error_map_sum [symmetric] Let_def comp_def split: prod.splits
      intro!: first_error_map_cong)

lemma ias_process_rows:
  "ias_process lib list_of_set armt parsed master has_nc_count =
     (if ias_create_nodes list_of_set armt = [] then Inl NoNodes
      else first_error (map (ias_final_row lib armt parsed master has_nc_count)
                          (ias_create_nodes list_of_set armt)))"
  by (auto simp: ias_process_def ias_final_row_def ias_merged_row_def staged_table
      ias_create_cadence_def ias_apply_master_lookups_def merge_columns_def
      ias_finalize_cadence_def finalize_cadence_def sum_case_map_sum
      first_error_map_sum [symmetric] Let_def comp_def split: prod.splits
      intro!: first_error_map_cong)

lemma staged_row_fields:
  assumes "staged_row lib r0 = Inr s"
  shows "NC_Count s = NC_Count r0" "Previous_Cadence s = Previous_Cadence r0"
    "Resolved_Date s = Resolved_Date r0" "risk_score s = risk_score r0"
    "Policies s = Policies r0" "JSR s = JSR r0"
  using assms by (auto simp: staged_row_def update_row_def Let_def dest: fallback_fields)

lemma ias_process_row:
  assumes "ias_process lib list_of_set armt parsed master h = Inr Cadence" and "r \<in> set Cadence"
  obtains cc s where "staged_row lib (ias_merged_row lib armt parsed master h cc) = Inr s"
    and "r = finalize_row lib (cadence_row.truncate s)"
proof -
  from assms(1) have "map (ias_final_row lib armt parsed master h) (ias_create_nodes list_of_set armt)
      = map Inr Cadence"
    by (auto simp: ias_process_rows first_error_Inr_iff split: if_splits)
  then have "Inr r \<in> set (map (ias_final_row lib armt parsed master h) (ias_create_nodes list_of_set armt))"
    using assms(2) by simp
  then obtain cc where "ias_final_row lib armt parsed master h cc = Inr r" by auto
  then obtain s where "staged_row lib (ias_merged_row lib armt parsed master h cc) = Inr s"
    "r = finalize_row lib (cadence_row.truncate s)"
    by (cases "staged_row lib (ias_merged_row lib armt parsed master h cc)")
       (auto simp: ias_final_row_def)
  then show ?thesis by (rule that)
qed

lemma finalize_truncate_fields:
  "Cadence_Score (finalize_row lib (cadence_row.truncate s)) = Cadence_Score s"
  "NC_Count (finalize_row lib (cadence_row.truncate s)) = NC_Count s"
  "Previous_Cadence (finalize_row lib (cadence_row.truncate s)) = Previous_Cadence s"
  "Resolved_Date (finalize_row lib (cadence_row.truncate s)) = Resolved_Date s"
  "risk_score (finalize_row lib (cadence_row.truncate s)) = (if risk_score s = 0 then 1 else risk_score s)"
  "Due_Date (finalize_row lib (cadence_row.truncate s)) = date_to_string lib (Str (Due_Date s))"
  by (simp_all add: finalize_row_def cadence_row.truncate_def)

section \<open>Runs of the model on the concrete tables\<close>

lemma run_gdn_unparsed:
  "gdn_process lib0 first_seen_order armt_global_de outflow_one_unparsed [] True = Inr [row_gdn_unparsed]"
  by code_simp

lemma run_gdn_outflow_unparsed:
  "map o_Resolved_date (fst (gdn_process_outflow lib0 outflow_one_unparsed)) = [''not Found!'', ''2024-03-15'']"
  by code_simp

lemma run_gdn_first_seen:
  "gdn_process lib0 first_seen_order armt_two_nodes [] [] True = Inr [row_cables, row_adapters]"
  by code_simp

lemma run_gdn_last_seen:
  "gdn_process lib0 last_seen_order armt_two_nodes [] [] True = Inr [row_adapters, row_cables]"
  by code_simp

lemma run_gdn_nodes_cross:
  "gdn_create_nodes first_seen_order armt_cross_de_fr = [''Cables'']"
  by code_simp

lemma run_spec_gdn_node_cross: "\<not> spec_gdn_node armt_cross_de_fr ''Cables''"
  by code_simp

text \<open>The IAS runs, stage by stage.\<close>

lemma nodes_jsr: "ias_create_nodes first_seen_order armt_cross_jsr = [''Electronics,Cables,FR-DE'']"
  by code_simp

lemma merged_row_jsr:
  "ias_merged_row lib0 armt_cross_jsr [] [] True ''Electronics,Cables,FR-DE'' = merged_jsr"
  by code_simp

lemma staged_jsr: "staged_row lib0 merged_jsr = Inr merged_jsr"
  by code_simp

lemma final_jsr: "finalize_row lib0 (cadence_row.truncate merged_jsr) = row_ias_jsr"
  by code_simp

lemma run_ias_jsr:
  "ias_process lib0 first_seen_order armt_cross_jsr [] [] True = Inr [row_ias_jsr]"
  by (simp add: ias_process_rows nodes_jsr ias_final_row_def merged_row_jsr staged_jsr final_jsr)

lemma nodes_score_45: "ias_create_nodes first_seen_order armt_negative_score = [''Electronics,Cables,FR'']"
  by code_simp

lemma merged_row_score_45:
  "ias_merged_row lib0 armt_negative_score [] master_score_45 True ''Electronics,Cables,FR'' = merged_score_45"
  by code_simp

lemma staged_score_45:
  "staged_row lib0 merged_score_45 = Inr (merged_score_45\<lparr>Cadence_Score := 45, Due_Date := ''2024-03-15''\<rparr>)"
  by code_simp

lemma final_score_45:
  "finalize_row lib0 (cadence_row.truncate (merged_score_45\<lparr>Cadence_Score := 45, Due_Date := ''2024-03-15''\<rparr>))
     = row_score_45"
  by code_simp

lemma run_ias_score_45:
  "ias_process lib0 first_seen_order armt_negative_score [] master_score_45 True = Inr [row_score_45]"
  by (simp add: ias_process_rows nodes_score_45 ias_final_row_def merged_row_score_45
      staged_score_45 final_score_45)

lemma nodes_global_fr: "ias_create_nodes first_seen_order armt_global_fr = [''Electronics,Cables,FR'']"
  by code_simp

lemma merged_row_global_fr:
  "ias_merged_row lib0 armt_global_fr outflow_fr [] True ''Electronics,Cables,FR'' = merged_global_fr"
  by code_simp

lemma staged_global_fr:
  "staged_row lib0 merged_global_fr = Inr (merged_global_fr\<lparr>Due_Date := ''2024-05-14''\<rparr>)"
  by code_simp

lemma final_global_fr:
  "finalize_row lib0 (cadence_row.truncate (merged_global_fr\<lparr>Due_Date := ''2024-05-14''\<rparr>)) = row_global_fr"
  by code_simp

lemma run_ias_global_fr:
  "ias_process lib0 first_seen_order armt_global_fr outflow_fr [] True = Inr [row_global_fr]"
  by (simp add: ias_process_rows nodes_global_fr ias_final_row_def merged_row_global_fr
      staged_global_fr final_global_fr)

section \<open>The score and risk domain\<close>

lemma np_where_TIERS: "v \<in> TIERS \<Longrightarrow> s \<in> TIERS \<Longrightarrow> np_where c v s \<in> TIERS"
  by (simp add: np_where_def)

lemma tier_constants: "30 \<in> TIERS" "60 \<in> TIERS" "90 \<in> TIERS" "180 \<in> TIERS" "365 \<in> TIERS"
  by (simp_all add: TIERS_def)

lemma new_score_in_TIERS:
  assumes "s \<in> TIERS"
  shows "new_score_of nc prev_nc prev_cad risk s \<in> TIERS"
  unfolding new_score_of_def Let_def
  by (intro np_where_TIERS tier_constants assms)

lemma initial_score_TIERS: "initial_score risk \<in> TIERS"
  by (simp add: initial_score_def RISK_TO_CADENCE_def TIERS_def)

lemma staged_row_score:
  assumes "Cadence_Score r0 \<in> TIERS" and "staged_row lib r0 = Inr s"
  shows "Cadence_Score s \<in> TIERS
       \<or> (is_not_found (Str (NC_Count r0)) \<and> \<not> is_not_found (Str (Previous_Cadence r0))
          \<and> (\<exists>x. float_of lib (Previous_Cadence r0) = Some x
                 \<and> (Cadence_Score s = py_int x \<or> \<not> fits_int64 (py_int x))))"
proof -
  define r1 where "r1 = (update_row lib r0)\<lparr>Due_Date := due_date_of lib (update_row lib r0)\<rparr>"
  have fb: "fallback lib r1 = Inr s"
    using assms(2) by (simp add: staged_row_def r1_def Let_def)
  have t: "Cadence_Score r1 \<in> TIERS"
    using assms(1) by (simp add: r1_def update_row_def new_score_in_TIERS)
  have f: "NC_Count r1 = NC_Count r0" "Previous_Cadence r1 = Previous_Cadence r0"
    by (simp_all add: r1_def update_row_def)
  show ?thesis
  proof (cases "is_not_found (Str (NC_Count r0)) \<and> \<not> is_not_found (Str (Previous_Cadence r0))")
    case False
    with fallback_score_kept [OF fb] t f show ?thesis by auto
  next
    case True
    show ?thesis
    proof (cases "float_of lib (Previous_Cadence r0)")
      case None
      with fallback_score_kept [OF fb] t f show ?thesis by simp
    next
      case (Some x)
      with fallback_score_carried [OF fb, of x] f True show ?thesis by auto
    qed
  qed
qed

lemma risk_of_cases:
  "risk_of lib (lookup_first key armt k) = 1
   \<or> (\<exists>a \<in> set armt. convert lib (a_parent_score a) = Some (risk_of lib (lookup_first key armt k)))"
  by (auto simp: risk_of_def lookup_first_def find_Some_iff split: option.splits)

lemma ias_merged_row_fields:
  "Cadence_Score (ias_merged_row lib armt parsed master h cc) =
     initial_score (risk_score (ias_merged_row lib armt parsed master h cc))"
  "risk_score (ias_merged_row lib armt parsed master h cc) =
     risk_of lib (lookup_first combined_class armt cc)"
  by (simp_all add: ias_merged_row_def merge_row_def ias_master_row_lookups_def
      ias_cadence_row_def Let_def split: prod.splits)

text \<open>
  Claim C5, as the code has it.  In the final table of a successful IAS run the risk score
  is never 0, and it is at least 1 when every parent score of the ARMT table that parses is
  0 or at least 1: \<open>finalize_cadence\<close> replaces 0 only.  The Cadence Score is one of 30, 60,
  90, 180, 365, unless the row has no current NC count and a Previous Cadence that parses:
  then it is \<open>int(float(Previous Cadence))\<close>, whatever that number is, as long as it is
  within \<open>int64\<close>.
\<close>

theorem C5_score_and_risk_domain:
  assumes "ias_process lib list_of_set armt parsed master has_nc_count = Inr Cadence"
    and "r \<in> set Cadence"
  shows "risk_score r \<noteq> 0
       \<and> (Cadence_Score r \<in> TIERS
          \<or> (is_not_found (Str (NC_Count r)) \<and> \<not> is_not_found (Str (Previous_Cadence r))
             \<and> (\<exists>x. float_of lib (Previous_Cadence r) = Some x
                    \<and> (Cadence_Score r = py_int x \<or> \<not> fits_int64 (py_int x)))))
       \<and> ((\<forall>a \<in> set armt. \<forall>x. convert lib (a_parent_score a) = Some x \<longrightarrow> x = 0 \<or> 1 \<le> x)
            \<longrightarrow> 1 \<le> risk_score r)"
proof -
  from assms obtain cc s
    where st: "staged_row lib (ias_merged_row lib armt parsed master has_nc_count cc) = Inr s"
      and r: "r = finalize_row lib (cadence_row.truncate s)"
    by (rule ias_process_row)
  define m where "m = ias_merged_row lib armt parsed master has_nc_count cc"
  have st': "staged_row lib m = Inr s" using st by (simp add: m_def)
  have risk: "risk_score r = (if risk_score m = 0 then 1 else risk_score m)"
    by (simp add: r finalize_truncate_fields staged_row_fields [OF st'])
  have "Cadence_Score m \<in> TIERS"
    by (simp add: m_def ias_merged_row_fields initial_score_TIERS)
  from staged_row_score [OF this st']
  have score: "Cadence_Score r \<in> TIERS
          \<or> (is_not_found (Str (NC_Count r)) \<and> \<not> is_not_found (Str (Previous_Cadence r))
             \<and> (\<exists>x. float_of lib (Previous_Cadence r) = Some x
                    \<and> (Cadence_Score r = py_int x \<or> \<not> fits_int64 (py_int x))))"
    by (simp add: r finalize_truncate_fields staged_row_fields [OF st'])
  have nonzero: "risk_score r \<noteq> 0"
    by (simp add: risk)
  have ge: "1 \<le> risk_score r"
    if "\<forall>a \<in> set armt. \<forall>x. convert lib (a_parent_score a) = Some x \<longrightarrow> x = 0 \<or> 1 \<le> x"
  proof -
    have rm: "risk_score m = risk_of lib (lookup_first combined_class armt cc)"
      by (simp add: m_def ias_merged_row_fields)
    from risk_of_cases [of lib combined_class armt cc] that
    have "risk_score m = 1 \<or> risk_score m = 0 \<or> 1 \<le> risk_score m"
      unfolding rm by auto
    then show ?thesis by (auto simp: risk)
  qed
  from nonzero score ge show ?thesis by simp
qed

text \<open>
  The claim as stated fails on both counts.  An ARMT row with parent score -3 and a master
  file that holds the cadence score 45 for its key, with no Outflow row: the run succeeds,
  and its one row has the Cadence Score 45, carried forward by the fallback, and the risk
  score -3.
\<close>

theorem C5_counterexample:
  "ias_process lib0 first_seen_order armt_negative_score [] master_score_45 True = Inr [row_score_45]
   \<and> Cadence_Score row_score_45 = 45 \<and> Cadence_Score row_score_45 \<notin> TIERS
   \<and> risk_score row_score_45 = - 3 \<and> risk_score row_score_45 < 1"
  by (simp add: run_ias_score_45) (simp add: row_score_45_def TIERS_def)

lemma parent_score_global_fr:
  "\<forall>a \<in> set armt_global_fr. \<forall>x. convert lib0 (a_parent_score a) = Some x \<longrightarrow> x = 0 \<or> 1 \<le> x"
  by (simp add: armt_global_fr_def convert_def is_not_found_def)

theorem C5_witness:
  "ias_process lib0 first_seen_order armt_global_fr outflow_fr [] True = Inr [row_global_fr]
   \<and> risk_score row_global_fr \<noteq> 0 \<and> 1 \<le> risk_score row_global_fr
   \<and> (Cadence_Score row_global_fr \<in> TIERS
      \<or> (is_not_found (Str (NC_Count row_global_fr))
         \<and> \<not> is_not_found (Str (Previous_Cadence row_global_fr))
         \<and> (\<exists>x. float_of lib0 (Previous_Cadence row_global_fr) = Some x
                \<and> (Cadence_Score row_global_fr = py_int x \<or> \<not> fits_int64 (py_int x)))))"
proof -
  have r: "row_global_fr \<in> set [row_global_fr]" by simp
  from C5_score_and_risk_domain [OF run_ias_global_fr r] parent_score_global_fr run_ias_global_fr
  show ?thesis by blast
qed

section \<open>Due date and resolved date\<close>



















lemma due_global_fr: "to_datetime lib0 ''2024-03-15'' = Some 19797" "strftime lib0 (19797 + 60) = ''2024-05-14''"
  by code_simp+


section \<open>The resolved date of a key\<close>

text \<open>
  Claim C7 fails on the code.  \<open>process_outflow\<close> of GDN turns the parsed dates into strings
  before it sorts: a date that did not parse becomes \<open>'not Found!'\<close>, which as a string is
  greater than every \<open>YYYY-MM-DD\<close>, so the descending sort puts it first and the lookup of
  \<open>create_cadence\<close> keeps it.  For the child class Cables with one Outflow row resolved on
  2024-03-15 and one whose date did not parse, the Cadence row has the Resolved Date
  \<open>'not Found!'\<close>, not 2024-03-15.
\<close>

theorem C7_unparsed_date_sorts_first:
  "map p_resolved outflow_one_unparsed = [Some 19797, None]
   \<and> strftime lib0 19797 = ''2024-03-15''
   \<and> map o_Resolved_date (fst (gdn_process_outflow lib0 outflow_one_unparsed)) = [''not Found!'', ''2024-03-15'']
   \<and> gdn_process lib0 first_seen_order armt_global_de outflow_one_unparsed [] True = Inr [row_gdn_unparsed]
   \<and> Resolved_Date row_gdn_unparsed = ''not Found!''"
proof -
  have "strftime lib0 19797 = ''2024-03-15''" by code_simp
  then show ?thesis
    by (simp add: run_gdn_outflow_unparsed run_gdn_unparsed)
       (simp add: outflow_one_unparsed_def row_gdn_unparsed_def)
qed

section \<open>The GDN nodes\<close>

text \<open>
  Claim C8 fails on the code.  The first loop of \<open>create_nodes\<close> of GDN, commented
  \<open>AmazonGlobal - DE source\<close>, does not test the program: a CrossListing row with Source DE
  and Destination FR makes its child class a node, though it meets neither (a), for want of
  the program AmazonGlobal, nor (b), FR being outside the cross list.
\<close>

theorem C8_cross_listing_row_in_core_loop:
  "map a_program armt_cross_de_fr = [''CrossListing'']
   \<and> gdn_create_nodes first_seen_order armt_cross_de_fr = [''Cables'']
   \<and> \<not> spec_gdn_node armt_cross_de_fr ''Cables''"
  by (simp add: run_gdn_nodes_cross run_spec_gdn_node_cross) (simp add: armt_cross_de_fr_def)

section \<open>Determinism\<close>

lemma first_error_mset:
  assumes "mset xs = mset ys"
  shows "rel_sum (\<lambda>e1 e2. True) (\<lambda>a b. mset a = mset b) (first_error xs) (first_error ys)"
proof (cases "\<exists>x \<in> set xs. isl x")
  case True
  then have "isl (first_error xs)" by (simp add: first_error_isl)
  moreover from assms have "set xs = set ys" by (rule mset_eq_setD)
  with True have "isl (first_error ys)" by (simp add: first_error_isl)
  ultimately show ?thesis by (auto simp: isl_def)
next
  case False
  moreover from assms have s: "set xs = set ys" by (rule mset_eq_setD)
  ultimately have "\<forall>x \<in> set xs. Inr (projr x) = x" "\<forall>y \<in> set ys. Inr (projr y) = y"
    by auto
  then have "map (\<lambda>x. Inr (projr x)) xs = xs" "map (\<lambda>y. Inr (projr y)) ys = ys"
    by (simp_all add: map_idI)
  then have "xs = map Inr (map projr xs)" "ys = map Inr (map projr ys)"
    by (simp_all add: comp_def)
  then have "first_error xs = Inr (map projr xs)" "first_error ys = Inr (map projr ys)"
    using first_error_Inr_iff [of xs "map projr xs"] first_error_Inr_iff [of ys "map projr ys"]
    by blast+
  moreover have "mset (map projr xs) = mset (map projr ys)"
    using assms by (metis mset_map)
  ultimately show ?thesis by simp
qed

lemma enumerates_mset:
  assumes "enumerates e1" and "enumerates e2"
  shows "mset (e1 xs) = mset (e2 xs)" and "e1 xs = [] \<longleftrightarrow> e2 xs = []"
proof -
  from assms have d: "distinct (e1 xs)" "distinct (e2 xs)" and s: "set (e1 xs) = set (e2 xs)"
    by (simp_all add: enumerates_def)
  from d s show "mset (e1 xs) = mset (e2 xs)"
    by (simp add: set_eq_iff_mset_eq_distinct)
  from s show "e1 xs = [] \<longleftrightarrow> e2 xs = []"
    by (metis set_empty)
qed

lemma enumerates_first_seen: "enumerates first_seen_order"
  by (simp add: enumerates_def first_seen_order_def)

lemma enumerates_last_seen: "enumerates last_seen_order"
  by (simp add: enumerates_def last_seen_order_def)

text \<open>
  Claim C9, as the code has it.  \<open>create_nodes\<close> collects the node keys in a Python set and
  \<open>create_cadence\<close> lists it with \<open>list(nodes)\<close>; the order of that list is the iteration
  order of a set of strings, which depends on the hash seed of the interpreter.  For any two
  enumerations of the node set, the two runs of \<open>process\<close>, GDN and IAS, either both fail or
  both return a table, and the two tables have the same rows, each as often in one as in
  the other; the order of the rows is that of the enumeration.
\<close>

theorem C9_same_rows_any_enumeration:
  assumes "enumerates e1" and "enumerates e2"
  shows "rel_sum (\<lambda>err1 err2. True) (\<lambda>t1 t2. mset t1 = mset t2)
           (gdn_process lib e1 armt parsed gdn_master has_nc_count)
           (gdn_process lib e2 armt parsed gdn_master has_nc_count)
       \<and> rel_sum (\<lambda>err1 err2. True) (\<lambda>t1 t2. mset t1 = mset t2)
           (ias_process lib e1 armt parsed ias_master has_nc_count)
           (ias_process lib e2 armt parsed ias_master has_nc_count)"
proof
  have g: "mset (gdn_create_nodes e1 armt) = mset (gdn_create_nodes e2 armt)"
    "gdn_create_nodes e1 armt = [] \<longleftrightarrow> gdn_create_nodes e2 armt = []"
    unfolding gdn_create_nodes_def by (rule enumerates_mset [OF assms])+
  from g(1) have "mset (map (gdn_final_row lib armt parsed gdn_master has_nc_count) (gdn_create_nodes e1 armt))
      = mset (map (gdn_final_row lib armt parsed gdn_master has_nc_count) (gdn_create_nodes e2 armt))"
    by (metis mset_map)
  from first_error_mset [OF this] g(2)
  show "rel_sum (\<lambda>err1 err2. True) (\<lambda>t1 t2. mset t1 = mset t2)
           (gdn_process lib e1 armt parsed gdn_master has_nc_count)
           (gdn_process lib e2 armt parsed gdn_master has_nc_count)"
    by (simp add: gdn_process_rows)
next
  have i: "mset (ias_create_nodes e1 armt) = mset (ias_create_nodes e2 armt)"
    "ias_create_nodes e1 armt = [] \<longleftrightarrow> ias_create_nodes e2 armt = []"
    unfolding ias_create_nodes_def Let_def by (rule enumerates_mset [OF assms])+
  from i(1) have "mset (map (ias_final_row lib armt parsed ias_master has_nc_count) (ias_create_nodes e1 armt))
      = mset (map (ias_final_row lib armt parsed ias_master has_nc_count) (ias_create_nodes e2 armt))"
    by (metis mset_map)
  from first_error_mset [OF this] i(2)
  show "rel_sum (\<lambda>err1 err2. True) (\<lambda>t1 t2. mset t1 = mset t2)
           (ias_process lib e1 armt parsed ias_master has_nc_count)
           (ias_process lib e2 armt parsed ias_master has_nc_count)"
    by (simp add: ias_process_rows)
qed

text \<open>
  The claim as stated asks for the same row order.  On an ARMT table with the two GDN nodes
  Cables and Adapters, the enumeration of the node set in first-seen order and the one in
  last-seen order give the two rows in opposite orders.
\<close>

theorem C9_counterexample:
  "enumerates first_seen_order \<and> enumerates last_seen_order
   \<and> gdn_process lib0 first_seen_order armt_two_nodes [] [] True = Inr [row_cables, row_adapters]
   \<and> gdn_process lib0 last_seen_order armt_two_nodes [] [] True = Inr [row_adapters, row_cables]
   \<and> [row_cables, row_adapters] \<noteq> [row_adapters, row_cables]"
  by (simp add: enumerates_first_seen enumerates_last_seen run_gdn_first_seen run_gdn_last_seen)
     (simp add: row_cables_def row_adapters_def)

theorem C9_witness:
  "enumerates first_seen_order \<and> enumerates last_seen_order
   \<and> rel_sum (\<lambda>err1 err2. True) (\<lambda>t1 t2. mset t1 = mset t2)
       (gdn_process lib0 first_seen_order armt_two_nodes [] [] True)
       (gdn_process lib0 last_seen_order armt_two_nodes [] [] True)
   \<and> mset [row_cables, row_adapters] = mset [row_adapters, row_cables]"
proof -
  note th = C9_same_rows_any_enumeration [OF enumerates_first_seen enumerates_last_seen,
      of lib0 armt_two_nodes "[]" "[]" True "[]", THEN conjunct1]
  from th have "mset [row_cables, row_adapters] = mset [row_adapters, row_cables]"
    by (simp add: run_gdn_first_seen run_gdn_last_seen)
  with th enumerates_first_seen enumerates_last_seen show ?thesis by simp
qed

section \<open>The JSR flag\<close>

text \<open>
  Claim C10 fails on the code of IAS.  \<open>create_cadence\<close> computes the JSR flag from the
  primary Policies column; \<open>merge_columns\<close> afterwards fills a primary Policies that was not
  found from the secondary column, and the flag is not computed again.  For a CrossListing
  row from FR to DE with the policy name \<open>Pol_JSR\<close> the node key is found under the
  secondary key only: the final row has the Policies \<open>Pol_JSR\<close>, which contains \<open>_JSR\<close>,
  and the JSR flag \<open>No\<close>.
\<close>

theorem C10_jsr_flag_before_merge:
  "ias_process lib0 first_seen_order armt_cross_jsr [] [] True = Inr [row_ias_jsr]
   \<and> Policies row_ias_jsr = ''Pol_JSR''
   \<and> contains (Policies row_ias_jsr) ''_JSR''
   \<and> jsr_of (Policies row_ias_jsr) = ''Yes''
   \<and> JSR row_ias_jsr = ''No''"
proof -
  have "contains ''Pol_JSR'' ''_JSR''" "jsr_of ''Pol_JSR'' = ''Yes''" by code_simp+
  then show ?thesis
    by (simp add: run_ias_jsr) (simp add: row_ias_jsr_def)
qed

end
